theory Spec2Isabelle
  imports Main "HOL-Library.Word" "HOL-Library.Signed_Division" "HOL-Library.Monad_Syntax"
begin

unbundle bit_operations_syntax

section \<open>Data model\<close>

text \<open>
  The anti-aliasing cell rasterizer of \<^verbatim>\<open>rasterizer_cells_antialias.h\<close>.
  \<^verbatim>\<open>int32_t\<close> and \<^verbatim>\<open>uint32_t\<close> are 32-bit words: \<open>+\<close>, \<open>-\<close> and \<open>*\<close> wrap around,
  \<open>sint\<close> reads a word as a signed value, \<open>unat\<close> as an unsigned one. The
  \<^verbatim>\<open>long long\<close> temporaries are mathematical integers: every value the code stores in
  one is a sum, difference or product of 32-bit values with a 9-bit factor, far inside
  64 bits. Converting a \<^verbatim>\<open>long long\<close> to \<^verbatim>\<open>int32_t\<close> is \<open>word_of_int\<close>.
\<close>

type_synonym int32 = "32 word"
type_synonym uint32 = "32 word"

text \<open>\<^verbatim>\<open>struct CellBuildAntiAlias\<close>; the fields \<^verbatim>\<open>x\<close> and \<^verbatim>\<open>y\<close> are \<open>cell_x\<close> and \<open>cell_y\<close>.\<close>

record Cell =
  cell_x :: int32
  cell_y :: int32
  cover :: int32
  area :: int32

definition INT32_MAX :: int32 where
  "INT32_MAX = 0x7FFFFFFF"

definition INT32_MIN :: int32 where
  "INT32_MIN = 0x80000000"

definition Initial :: "Cell \<Rightarrow> Cell" where
  "Initial c = c\<lparr>cell_x := INT32_MAX, cell_y := INT32_MAX, cover := 0, area := 0\<rparr>"

definition NotEqual :: "Cell \<Rightarrow> int32 \<Rightarrow> int32 \<Rightarrow> int32" where
  "NotEqual c ex ey = (ex - cell_x c) OR (ey - cell_y c)"

text \<open>\<^verbatim>\<open>struct SortedYLevel\<close>.\<close>

record SortedYLevel =
  start :: uint32
  num :: uint32

text \<open>
  A \<^verbatim>\<open>CellType*\<close> into the pool is the index of its block in the block table and the
  slot inside the block. A block is the list of its slots that have been written since
  it was allocated: the slots beyond are uninitialised memory, which the code never
  reads.
\<close>

type_synonym cellptr = "nat \<times> nat"

text \<open>
  \<^verbatim>\<open>class RasterizerCellsAntiAlias\<close>. \<open>cells\<close> is the block table \<^verbatim>\<open>cells_\<close> with its
  \<open>numBlocks\<close> blocks, \<open>currCellPtr\<close> is \<open>None\<close> for the null pointer, \<open>sortedFlag\<close> is
  the field \<^verbatim>\<open>sorted_\<close>. The two plain-data vectors are lists; a slot of
  \<open>sortedCells\<close> that has been allocated and not yet written is \<open>None\<close>.
\<close>

record Rasterizer =
  numBlocks :: uint32
  maxBlocks :: uint32
  currBlock :: uint32
  numCells :: uint32
  cellBlockLimit :: uint32
  cells :: "Cell list list"
  currCellPtr :: "cellptr option"
  sortedCells :: "cellptr option list"
  sortedY :: "SortedYLevel list"
  currCell :: Cell
  styleCell :: Cell
  minX :: int32
  minY :: int32
  maxX :: int32
  maxY :: int32
  sortedFlag :: bool

definition CELL_BLOCK_SHIFT :: nat where
  "CELL_BLOCK_SHIFT = 12"

definition CELL_BLOCK_SIZE :: nat where
  "CELL_BLOCK_SIZE = 2 ^ CELL_BLOCK_SHIFT"

definition CELL_BLOCK_MASK :: uint32 where
  "CELL_BLOCK_MASK = 0xFFF"

definition CELL_BLOCK_POOL :: uint32 where
  "CELL_BLOCK_POOL = 256"

text \<open>
  Modelled from the spec: the sub-pixel constants of \<^verbatim>\<open>gfx_utils/diagram/common\<close>, which
  is not among the sources. The spec gives 8 fractional bits and the scale 256.
\<close>

definition POLY_SUBPIXEL_SHIFT :: nat where
  "POLY_SUBPIXEL_SHIFT = 8"

definition POLY_SUBPIXEL_SCALE :: int32 where
  "POLY_SUBPIXEL_SCALE = 256"

definition POLY_SUBPIXEL_MASK :: int32 where
  "POLY_SUBPIXEL_MASK = 255"

text \<open>
  \<^verbatim>\<open>DX_LIMIT = CONSTITUTION << POLY_SUBPIXEL_SHIFT\<close>. The constant \<^verbatim>\<open>CONSTITUTION\<close> is
  declared in a header that is not among the sources and the spec does not give its
  value, so it is the parameter \<open>c\<close> of the model.
\<close>

definition DX_LIMIT :: "int \<Rightarrow> int" where
  "DX_LIMIT c = push_bit POLY_SUBPIXEL_SHIFT c"

section \<open>Cell storage\<close>

text \<open>The constructor \<^verbatim>\<open>RasterizerCellsAntiAlias(cellBlockLimit)\<close>.\<close>

definition sentinel :: Cell where
  "sentinel = \<lparr>cell_x = INT32_MAX, cell_y = INT32_MAX, cover = 0, area = 0\<rparr>"

definition RasterizerCellsAntiAlias :: "uint32 \<Rightarrow> Rasterizer" where
  "RasterizerCellsAntiAlias limit =
     \<lparr>numBlocks = 0, maxBlocks = 0, currBlock = 0, numCells = 0, cellBlockLimit = limit,
      cells = [], currCellPtr = None, sortedCells = [], sortedY = [],
      currCell = Initial sentinel, styleCell = Initial sentinel,
      minX = INT32_MAX, minY = INT32_MAX, maxX = INT32_MIN, maxY = INT32_MIN,
      sortedFlag = False\<rparr>"

definition Reset :: "Rasterizer \<Rightarrow> Rasterizer" where
  "Reset s = s\<lparr>numCells := 0, currBlock := 0, currCell := Initial (currCell s),
               styleCell := Initial (styleCell s), sortedFlag := False,
               minX := INT32_MAX, minY := INT32_MAX, maxX := INT32_MIN, maxY := INT32_MIN\<rparr>"

text \<open>
  \<^verbatim>\<open>AllocateBlock\<close>. Growing the block table copies its entries, so only the capacity
  \<open>maxBlocks\<close> changes; \<^verbatim>\<open>cells_[numBlocks_++] = Allocate(CELL_BLOCK_SIZE)\<close> appends a
  block with no written slot.
\<close>

definition AllocateBlock :: "Rasterizer \<Rightarrow> Rasterizer" where
  "AllocateBlock s =
     (let s1 = (if currBlock s \<ge> numBlocks s then
                  (let s0 = (if numBlocks s \<ge> maxBlocks s
                             then s\<lparr>maxBlocks := maxBlocks s + CELL_BLOCK_POOL\<rparr> else s)
                   in s0\<lparr>cells := cells s0 @ [[]], numBlocks := numBlocks s0 + 1\<rparr>)
                else s)
      in s1\<lparr>currCellPtr := Some (unat (currBlock s1), 0), currBlock := currBlock s1 + 1\<rparr>)"

text \<open>Writing slot \<open>j\<close> of a block: the slots are written in order.\<close>

definition put_slot :: "Cell list \<Rightarrow> nat \<Rightarrow> Cell \<Rightarrow> Cell list" where
  "put_slot b j c = (if j < length b then b[j := c] else b @ [c])"

text \<open>
  \<^verbatim>\<open>*currCellPtr_++ = currCell_; ++numCells_;\<close> The pointer is null only before the
  first \<^verbatim>\<open>AllocateBlock\<close>, which every store follows; the model leaves the pool alone
  there.
\<close>

definition store_cell :: "Rasterizer \<Rightarrow> Rasterizer" where
  "store_cell s =
     (case currCellPtr s of
        None \<Rightarrow> s\<lparr>numCells := numCells s + 1\<rparr>
      | Some (b, j) \<Rightarrow>
          s\<lparr>cells := (cells s)[b := put_slot (cells s ! b) j (currCell s)],
            currCellPtr := Some (b, Suc j),
            numCells := numCells s + 1\<rparr>)"

definition AddCurrentCell :: "Rasterizer \<Rightarrow> Rasterizer" where
  "AddCurrentCell s =
     (if (area (currCell s) OR cover (currCell s)) \<noteq> 0 then
        (if numCells s AND CELL_BLOCK_MASK = 0 then
           (if numBlocks s \<ge> cellBlockLimit s then s
            else store_cell (AllocateBlock s))
         else store_cell s)
      else s)"

definition SetCurrentCell :: "Rasterizer \<Rightarrow> int32 \<Rightarrow> int32 \<Rightarrow> Rasterizer" where
  "SetCurrentCell s ex ey =
     (if NotEqual (currCell s) ex ey \<noteq> 0 then
        (let s1 = AddCurrentCell s
         in s1\<lparr>currCell := (currCell s1)\<lparr>cell_x := ex, cell_y := ey, cover := 0, area := 0\<rparr>\<rparr>)
      else s)"

text \<open>
  \<^verbatim>\<open>OutLineLegal\<close> is eight tests in a row, two for each of the four coordinates:
  \<^verbatim>\<open>if (v < minX_) minX_ = v; if (v > maxX_) maxX_ = v;\<close> and the same for \<open>y\<close>.
\<close>

definition OutLineLegal_x :: "Rasterizer \<Rightarrow> int32 \<Rightarrow> Rasterizer" where
  "OutLineLegal_x s v =
     (let s = (if sint v < sint (minX s) then s\<lparr>minX := v\<rparr> else s)
      in if sint v > sint (maxX s) then s\<lparr>maxX := v\<rparr> else s)"

definition OutLineLegal_y :: "Rasterizer \<Rightarrow> int32 \<Rightarrow> Rasterizer" where
  "OutLineLegal_y s v =
     (let s = (if sint v < sint (minY s) then s\<lparr>minY := v\<rparr> else s)
      in if sint v > sint (maxY s) then s\<lparr>maxY := v\<rparr> else s)"

definition OutLineLegal :: "Rasterizer \<Rightarrow> int32 \<Rightarrow> int32 \<Rightarrow> int32 \<Rightarrow> int32 \<Rightarrow> Rasterizer" where
  "OutLineLegal s x1 y1 x2 y2 =
     OutLineLegal_y (OutLineLegal_x (OutLineLegal_y (OutLineLegal_x s x1) y1) x2) y2"

section \<open>Edge rasterizer\<close>

text \<open>Adding to the accumulators of the current cell.\<close>

definition add_cover_area :: "Rasterizer \<Rightarrow> int32 \<Rightarrow> int32 \<Rightarrow> Rasterizer" where
  "add_cover_area s dc da =
     s\<lparr>currCell := (currCell s)\<lparr>cover := cover (currCell s) + dc,
                                 area := area (currCell s) + da\<rparr>\<rparr>"

text \<open>
  The step of a loop counter: \<^verbatim>\<open>increase\<close> is \<open>-1\<close> when the delta the loop follows is
  negative, and \<open>1\<close> otherwise.
\<close>

definition increase_of :: "bool \<Rightarrow> int32" where
  "increase_of neg = (if neg then - 1 else 1)"

text \<open>A 32-bit counter that steps by one towards a different value gets closer to it.\<close>

lemma unat_pred_less: "(w::32 word) \<noteq> 0 \<Longrightarrow> unat (w - 1) < unat w"
  by (simp add: unat_minus_one unat_gt_0)

lemma step_down_less: "(a::32 word) \<noteq> b \<Longrightarrow> unat (a - 1 - b) < unat (a - b)"
proof -
  assume "a \<noteq> b"
  then have "a - b \<noteq> 0" by simp
  then have "unat ((a - b) - 1) < unat (a - b)" by (rule unat_pred_less)
  moreover have "a - 1 - b = (a - b) - 1" by (simp add: algebra_simps)
  ultimately show ?thesis by (simp only:)
qed

lemma step_up_less: "(a::32 word) \<noteq> b \<Longrightarrow> unat (b - (a + 1)) < unat (b - a)"
proof -
  assume "a \<noteq> b"
  then have "b - a \<noteq> 0" by simp
  then have "unat ((b - a) - 1) < unat (b - a)" by (rule unat_pred_less)
  moreover have "b - (a + 1) = (b - a) - 1" by (simp add: algebra_simps)
  ultimately show ?thesis by (simp only:)
qed

text \<open>
  The \<^verbatim>\<open>while (pixelX1 != pixelX2)\<close> loop of \<^verbatim>\<open>RenderHorizonline\<close>. The loop state is the
  rasterizer, \<^verbatim>\<open>pixelX1\<close>, \<^verbatim>\<open>modDxMask\<close> and \<^verbatim>\<open>polySubpixelMaskY1\<close>; the step is one
  run of the loop body.
\<close>

definition RenderHorizonline_step ::
  "bool \<Rightarrow> int \<Rightarrow> int32 \<Rightarrow> int32 \<Rightarrow> int32 \<Rightarrow>
   Rasterizer \<times> int32 \<times> int32 \<times> int32 \<Rightarrow> Rasterizer \<times> int32 \<times> int32 \<times> int32"
where
  "RenderHorizonline_step neg dx liftDxMask remDxMask ey st =
     (let s = fst st; pixelX1 = fst (snd st);
          modDxMask = fst (snd (snd st)); maskY1 = snd (snd (snd st));
          delta = liftDxMask;
          modDxMask = modDxMask + remDxMask;
          delta = (if 0 \<le> sint modDxMask then delta + 1 else delta);
          modDxMask = (if 0 \<le> sint modDxMask
                       then word_of_int (sint modDxMask - dx) else modDxMask);
          s = add_cover_area s delta (POLY_SUBPIXEL_SCALE * delta);
          maskY1 = maskY1 + delta;
          pixelX1 = pixelX1 + increase_of neg;
          s = SetCurrentCell s pixelX1 ey
      in (s, pixelX1, modDxMask, maskY1))"

function RenderHorizonline_while ::
  "bool \<Rightarrow> int \<Rightarrow> int32 \<Rightarrow> int32 \<Rightarrow> int32 \<Rightarrow> int32 \<Rightarrow>
   Rasterizer \<times> int32 \<times> int32 \<times> int32 \<Rightarrow> Rasterizer \<times> int32 \<times> int32 \<times> int32"
where
  "RenderHorizonline_while neg dx liftDxMask remDxMask ey pixelX2 st =
     (if fst (snd st) \<noteq> pixelX2
      then RenderHorizonline_while neg dx liftDxMask remDxMask ey pixelX2
             (RenderHorizonline_step neg dx liftDxMask remDxMask ey st)
      else st)"
  by pat_completeness auto
termination
  by (relation "measure (\<lambda>(neg, dx, l, r, ey, pixelX2, st).
                   unat (if neg then fst (snd st) - pixelX2 else pixelX2 - fst (snd st)))")
     (auto simp: RenderHorizonline_step_def Let_def increase_of_def
                 step_down_less step_up_less)

declare RenderHorizonline_while.simps [simp del]

text \<open>
  \<^verbatim>\<open>RenderHorizonline\<close>: the cells of row \<open>ey\<close> from \<open>x1\<close> to \<open>x2\<close>, with the sub-pixel
  height going from \<open>maskY1\<close> to \<open>maskY2\<close>. Division and remainder of \<^verbatim>\<open>long long\<close>
  truncate towards zero (\<open>sdiv\<close>, \<open>smod\<close>); \<^verbatim>\<open>>>\<close> on a signed value is the arithmetic
  shift.
\<close>

definition RenderHorizonline ::
  "Rasterizer \<Rightarrow> int32 \<Rightarrow> int32 \<Rightarrow> int32 \<Rightarrow> int32 \<Rightarrow> int32 \<Rightarrow> Rasterizer"
where
  "RenderHorizonline s ey x1 maskY1 x2 maskY2 =
     (let submaskFlagsX1 = x1 AND POLY_SUBPIXEL_MASK;
          submaskFlagsX2 = x2 AND POLY_SUBPIXEL_MASK;
          pixelX1 = signed_drop_bit POLY_SUBPIXEL_SHIFT x1;
          pixelX2 = signed_drop_bit POLY_SUBPIXEL_SHIFT x2
      in if maskY2 = maskY1 then SetCurrentCell s pixelX2 ey
         else if pixelX1 = pixelX2 then
           (let delta = maskY2 - maskY1
            in add_cover_area s delta ((submaskFlagsX1 + submaskFlagsX2) * delta))
         else
           (let neg = (sint x2 - sint x1 < 0);
                first = (if neg then 0 else POLY_SUBPIXEL_SCALE);
                dx = (if neg then - (sint x2 - sint x1) else sint x2 - sint x1);
                deltayMask = (if neg then submaskFlagsX1 * (maskY2 - maskY1)
                              else (POLY_SUBPIXEL_SCALE - submaskFlagsX1) * (maskY2 - maskY1));
                delta = (word_of_int (sint deltayMask sdiv dx) :: int32);
                modDxMask = (word_of_int (sint deltayMask smod dx) :: int32);
                delta = (if sint modDxMask < 0 then delta - 1 else delta);
                modDxMask = (if sint modDxMask < 0
                             then word_of_int (sint modDxMask + dx) else modDxMask);
                s = add_cover_area s delta ((submaskFlagsX1 + first) * delta);
                pixelX1 = pixelX1 + increase_of neg;
                s = SetCurrentCell s pixelX1 ey;
                maskY1 = maskY1 + delta;
                st = (if pixelX1 \<noteq> pixelX2 then
                        (let deltayMask = POLY_SUBPIXEL_SCALE * (maskY2 - maskY1 + delta);
                             remDxMask = (word_of_int (sint deltayMask smod dx) :: int32);
                             liftDxMask = (word_of_int (sint deltayMask sdiv dx) :: int32);
                             liftDxMask = (if sint remDxMask < 0
                                           then liftDxMask - 1 else liftDxMask);
                             remDxMask = (if sint remDxMask < 0
                                          then word_of_int (sint remDxMask + dx)
                                          else remDxMask);
                             modDxMask = word_of_int (sint modDxMask - dx)
                         in RenderHorizonline_while neg dx liftDxMask remDxMask ey pixelX2
                              (s, pixelX1, modDxMask, maskY1))
                      else (s, pixelX1, modDxMask, maskY1));
                s = fst st;
                maskY1 = snd (snd (snd st));
                delta = maskY2 - maskY1
            in add_cover_area s delta
                 ((submaskFlagsX2 + POLY_SUBPIXEL_SCALE - first) * delta)))"

text \<open>
  The loop of the vertical case of \<^verbatim>\<open>LineOperate\<close>: every row between the first and the
  last gets the full-height \<open>delta\<close> and the constant \<open>area\<close>. The loop state is the
  rasterizer and \<^verbatim>\<open>ey1\<close>.
\<close>

definition LineOperate_vertical_step ::
  "bool \<Rightarrow> int32 \<Rightarrow> int32 \<Rightarrow> int32 \<Rightarrow> Rasterizer \<times> int32 \<Rightarrow> Rasterizer \<times> int32"
where
  "LineOperate_vertical_step neg ex delta area0 st =
     (let s = fst st; ey1 = snd st;
          s = s\<lparr>currCell := (currCell s)\<lparr>cover := delta, area := area0\<rparr>\<rparr>;
          ey1 = ey1 + increase_of neg;
          s = SetCurrentCell s ex ey1
      in (s, ey1))"

function LineOperate_vertical_while ::
  "bool \<Rightarrow> int32 \<Rightarrow> int32 \<Rightarrow> int32 \<Rightarrow> int32 \<Rightarrow> Rasterizer \<times> int32 \<Rightarrow> Rasterizer \<times> int32"
where
  "LineOperate_vertical_while neg ex delta area0 ey2 st =
     (if snd st \<noteq> ey2
      then LineOperate_vertical_while neg ex delta area0 ey2
             (LineOperate_vertical_step neg ex delta area0 st)
      else st)"
  by pat_completeness auto
termination
  by (relation "measure (\<lambda>(neg, ex, delta, area0, ey2, st).
                   unat (if neg then snd st - ey2 else ey2 - snd st))")
     (auto simp: LineOperate_vertical_step_def Let_def increase_of_def
                 step_down_less step_up_less)

declare LineOperate_vertical_while.simps [simp del]

text \<open>
  The loop of the general case of \<^verbatim>\<open>LineOperate\<close>: one \<^verbatim>\<open>RenderHorizonline\<close> per row
  between the first and the last. The loop state is the rasterizer, \<^verbatim>\<open>ey1\<close>,
  \<^verbatim>\<open>xFrom\<close> and \<^verbatim>\<open>modDyMask\<close>.
\<close>

definition LineOperate_step ::
  "bool \<Rightarrow> int \<Rightarrow> int32 \<Rightarrow> int32 \<Rightarrow> int32 \<Rightarrow>
   Rasterizer \<times> int32 \<times> int32 \<times> int32 \<Rightarrow> Rasterizer \<times> int32 \<times> int32 \<times> int32"
where
  "LineOperate_step neg dy liftDyMask remDyMask first st =
     (let s = fst st; ey1 = fst (snd st);
          xFrom = fst (snd (snd st)); modDyMask = snd (snd (snd st));
          delta = liftDyMask;
          modDyMask = modDyMask + remDyMask;
          delta = (if 0 \<le> sint modDyMask then delta + 1 else delta);
          modDyMask = (if 0 \<le> sint modDyMask
                       then word_of_int (sint modDyMask - dy) else modDyMask);
          xTo = xFrom + delta;
          s = RenderHorizonline s ey1 xFrom (POLY_SUBPIXEL_SCALE - first) xTo first;
          xFrom = xTo;
          ey1 = ey1 + increase_of neg;
          s = SetCurrentCell s (signed_drop_bit POLY_SUBPIXEL_SHIFT xFrom) ey1
      in (s, ey1, xFrom, modDyMask))"

function LineOperate_while ::
  "bool \<Rightarrow> int \<Rightarrow> int32 \<Rightarrow> int32 \<Rightarrow> int32 \<Rightarrow> int32 \<Rightarrow>
   Rasterizer \<times> int32 \<times> int32 \<times> int32 \<Rightarrow> Rasterizer \<times> int32 \<times> int32 \<times> int32"
where
  "LineOperate_while neg dy liftDyMask remDyMask first ey2 st =
     (if fst (snd st) \<noteq> ey2
      then LineOperate_while neg dy liftDyMask remDyMask first ey2
             (LineOperate_step neg dy liftDyMask remDyMask first st)
      else st)"
  by pat_completeness auto
termination
  by (relation "measure (\<lambda>(neg, dy, l, r, first, ey2, st).
                   unat (if neg then fst (snd st) - ey2 else ey2 - fst (snd st)))")
     (auto simp: LineOperate_step_def Let_def increase_of_def
                 step_down_less step_up_less)

declare LineOperate_while.simps [simp del]

text \<open>
  \<^verbatim>\<open>LineOperate\<close> from the computation of \<^verbatim>\<open>dy\<close> on (the code after the \<^verbatim>\<open>DX_LIMIT\<close>
  test): a segment in one row, a vertical segment, or one horizontal line per row.
  The test \<^verbatim>\<open>modDyMask < 0\<close> that follows a division is made once, on the remainder as
  the division left it, for both variables it adjusts.
\<close>

definition LineOperate_render ::
  "Rasterizer \<Rightarrow> int32 \<Rightarrow> int32 \<Rightarrow> int32 \<Rightarrow> int32 \<Rightarrow> Rasterizer"
where
  "LineOperate_render s x1 y1 x2 y2 =
     (let dx = sint x2 - sint x1;
          dy = sint y2 - sint y1;
          ex1 = signed_drop_bit POLY_SUBPIXEL_SHIFT x1;
          ex2 = signed_drop_bit POLY_SUBPIXEL_SHIFT x2;
          ey1 = signed_drop_bit POLY_SUBPIXEL_SHIFT y1;
          ey2 = signed_drop_bit POLY_SUBPIXEL_SHIFT y2;
          submaskFlagsY1 = y1 AND POLY_SUBPIXEL_MASK;
          submaskFlagsY2 = y2 AND POLY_SUBPIXEL_MASK;
          s = OutLineLegal s ex1 ey1 ex2 ey2;
          s = SetCurrentCell s ex1 ey1
      in if ey1 = ey2 then RenderHorizonline s ey1 x1 submaskFlagsY1 x2 submaskFlagsY2
         else if dx = 0 then
           (let ex = signed_drop_bit POLY_SUBPIXEL_SHIFT x1;
                twoFx = push_bit 1 (x1 - push_bit POLY_SUBPIXEL_SHIFT ex);
                neg = (dy < 0);
                first = (if neg then 0 else POLY_SUBPIXEL_SCALE);
                delta = first - submaskFlagsY1;
                s = add_cover_area s delta (twoFx * delta);
                ey1 = ey1 + increase_of neg;
                s = SetCurrentCell s ex ey1;
                delta = first + first - POLY_SUBPIXEL_SCALE;
                area0 = twoFx * delta;
                s = fst (LineOperate_vertical_while neg ex delta area0 ey2 (s, ey1));
                delta = submaskFlagsY2 - POLY_SUBPIXEL_SCALE + first
            in add_cover_area s delta (twoFx * delta))
         else
           (let neg = (dy < 0);
                deltaxMask = (if neg then sint submaskFlagsY1 * dx
                              else sint (POLY_SUBPIXEL_SCALE - submaskFlagsY1) * dx);
                first = (if neg then 0 else POLY_SUBPIXEL_SCALE);
                dy = (if neg then - dy else dy);
                delta = (word_of_int (deltaxMask sdiv dy) :: int32);
                modDyMask = (word_of_int (deltaxMask smod dy) :: int32);
                delta = (if sint modDyMask < 0 then delta - 1 else delta);
                modDyMask = (if sint modDyMask < 0
                             then word_of_int (sint modDyMask + dy) else modDyMask);
                xFrom = x1 + delta;
                s = RenderHorizonline s ey1 x1 submaskFlagsY1 xFrom first;
                ey1 = ey1 + increase_of neg;
                s = SetCurrentCell s (signed_drop_bit POLY_SUBPIXEL_SHIFT xFrom) ey1;
                st = (if ey1 \<noteq> ey2 then
                        (let deltaxMask = sint POLY_SUBPIXEL_SCALE * dx;
                             liftDyMask = (word_of_int (deltaxMask sdiv dy) :: int32);
                             remDyMask = (word_of_int (deltaxMask smod dy) :: int32);
                             liftDyMask = (if sint remDyMask < 0
                                           then liftDyMask - 1 else liftDyMask);
                             remDyMask = (if sint remDyMask < 0
                                          then word_of_int (sint remDyMask + dy)
                                          else remDyMask);
                             modDyMask = word_of_int (sint modDyMask - dy)
                         in LineOperate_while neg dy liftDyMask remDyMask first ey2
                              (s, ey1, xFrom, modDyMask))
                      else (s, ey1, xFrom, modDyMask));
                s = fst st;
                ey1 = fst (snd st);
                xFrom = fst (snd (snd st))
            in RenderHorizonline s ey1 xFrom (POLY_SUBPIXEL_SCALE - first) x2 submaskFlagsY2))"

text \<open>
  \<^verbatim>\<open>LineOperate\<close>. When \<open>dx\<close> reaches the limit the two halves are rasterized by the
  recursive calls; there is no \<^verbatim>\<open>return\<close> after them, so control goes on to the code
  below the test, with the whole segment. The recursion need not end for every value of
  the limit, so the result is an option: \<open>None\<close> is a call that does not return.
\<close>

partial_function (option) LineOperate ::
  "int \<Rightarrow> Rasterizer \<Rightarrow> int32 \<Rightarrow> int32 \<Rightarrow> int32 \<Rightarrow> int32 \<Rightarrow> Rasterizer option"
where
  "LineOperate c s x1 y1 x2 y2 =
     Option.bind
       (if sint x2 - sint x1 \<ge> DX_LIMIT c \<or> sint x2 - sint x1 \<le> - DX_LIMIT c then
          Option.bind
            (LineOperate c s x1 y1
               (word_of_int (drop_bit 1 (sint x1 + sint x2)))
               (word_of_int (drop_bit 1 (sint y1 + sint y2))))
            (\<lambda>s1. LineOperate c s1
               (word_of_int (drop_bit 1 (sint x1 + sint x2)))
               (word_of_int (drop_bit 1 (sint y1 + sint y2))) x2 y2)
        else Some s)
       (\<lambda>s2. Some (LineOperate_render s2 x1 y1 x2 y2))"

declare LineOperate.simps [code]

section \<open>Row sorter\<close>

text \<open>
  Reading or writing outside an array, through a null or dangling pointer, or beyond
  the 80 entries of the sorter's stack is undefined behaviour in the source. The sorter
  is modelled with option results: \<open>None\<close> stands for a run that does such an access.
\<close>

text \<open>The cell a \<^verbatim>\<open>CellType*\<close> points to.\<close>

definition cell_at :: "Cell list list \<Rightarrow> cellptr \<Rightarrow> Cell option" where
  "cell_at pool p =
     (if fst p < length pool \<and> snd p < length (pool ! fst p)
      then Some (pool ! fst p ! snd p) else None)"

text \<open>\<^verbatim>\<open>a[i]->x\<close> for an array \<open>a\<close> of cell pointers.\<close>

definition x_at :: "Cell list list \<Rightarrow> cellptr option list \<Rightarrow> nat \<Rightarrow> int32 option" where
  "x_at pool a i =
     (if i < length a then
        (case a ! i of None \<Rightarrow> None | Some p \<Rightarrow> map_option cell_x (cell_at pool p))
      else None)"

definition SwapCells :: "'a list \<Rightarrow> nat \<Rightarrow> nat \<Rightarrow> 'a list option" where
  "SwapCells a i j =
     (if i < length a \<and> j < length a then Some (a[i := a ! j, j := a ! i]) else None)"

text \<open>\<^verbatim>\<open>if (a[j]->x < a[i]->x) SwapCells(i, j)\<close>, the step of the median-of-three.\<close>

definition swap_if_less ::
  "Cell list list \<Rightarrow> cellptr option list \<Rightarrow> nat \<Rightarrow> nat \<Rightarrow> cellptr option list option"
where
  "swap_if_less pool a j i =
     do { xj \<leftarrow> x_at pool a j;
          xi \<leftarrow> x_at pool a i;
          if sint xj < sint xi then SwapCells a i j else Some a }"

text \<open>\<^verbatim>\<open>do { i++; } while (a[i]->x < x);\<close>\<close>

function sweep_up :: "Cell list list \<Rightarrow> cellptr option list \<Rightarrow> int32 \<Rightarrow> nat \<Rightarrow> nat option" where
  "sweep_up pool a xv i =
     do { v \<leftarrow> x_at pool a (Suc i);
          if sint v < sint xv then sweep_up pool a xv (Suc i) else Some (Suc i) }"
  by pat_completeness auto
termination
  by (relation "measure (\<lambda>(pool, a, xv, i). length a - i)")
     (auto simp: x_at_def split: if_splits)

declare sweep_up.simps [simp del]

text \<open>\<^verbatim>\<open>do { j--; } while (x < a[j]->x);\<close> Stepping below the first entry leaves the array.\<close>

fun sweep_down :: "Cell list list \<Rightarrow> cellptr option list \<Rightarrow> int32 \<Rightarrow> nat \<Rightarrow> nat option" where
  "sweep_down pool a xv 0 = None"
| "sweep_down pool a xv (Suc j) =
     do { v \<leftarrow> x_at pool a j;
          if sint xv < sint v then sweep_down pool a xv j else Some j }"

lemma sweep_up_bounds: "sweep_up pool a xv i = Some i' \<Longrightarrow> i < i' \<and> i' < length a"
proof (induction pool a xv i rule: sweep_up.induct)
  case (1 pool a xv i)
  from "1.prems" obtain v where v: "x_at pool a (Suc i) = Some v"
    by (subst (asm) sweep_up.simps) (auto simp: bind_eq_Some_conv)
  then have len: "Suc i < length a"
    by (auto simp: x_at_def split: if_splits)
  show ?case
  proof (cases "sint v < sint xv")
    case True
    with "1.prems" v have "sweep_up pool a xv (Suc i) = Some i'"
      by (subst (asm) sweep_up.simps) simp
    with "1.IH" [OF v True] show ?thesis by simp
  next
    case False
    with "1.prems" v have "i' = Suc i"
      by (subst (asm) sweep_up.simps) simp
    with len show ?thesis by simp
  qed
qed

lemma SwapCells_length: "SwapCells a i j = Some a' \<Longrightarrow> length a' = length a"
  by (auto simp: SwapCells_def split: if_splits)

text \<open>
  The \<^verbatim>\<open>while (1)\<close> loop of \<^verbatim>\<open>QsortCellsSweep\<close>; the result is the array with the final
  \<open>i\<close> and \<open>j\<close>.
\<close>

function QsortCellsSweep_while ::
  "Cell list list \<Rightarrow> nat \<Rightarrow> cellptr option list \<Rightarrow> nat \<Rightarrow> nat \<Rightarrow>
   (cellptr option list \<times> nat \<times> nat) option"
where
  "QsortCellsSweep_while pool base a i j =
     do { xv \<leftarrow> x_at pool a base;
          i' \<leftarrow> sweep_up pool a xv i;
          j' \<leftarrow> sweep_down pool a xv j;
          if i' > j' then Some (a, i', j')
          else do { a' \<leftarrow> SwapCells a i' j';
                    QsortCellsSweep_while pool base a' i' j' } }"
  by pat_completeness auto
termination
  by (relation "measure (\<lambda>(pool, base, a, i, j). length a - i)")
     (auto dest!: sweep_up_bounds SwapCells_length)

declare QsortCellsSweep_while.simps [simp del]

text \<open>
  \<^verbatim>\<open>QsortCellsSweep\<close>: the median-of-three of \<open>a[i]\<close>, \<open>a[base]\<close> and \<open>a[j]\<close>, then the
  partition loop.
\<close>

definition QsortCellsSweep ::
  "Cell list list \<Rightarrow> cellptr option list \<Rightarrow> nat \<Rightarrow> nat \<Rightarrow> nat \<Rightarrow>
   (cellptr option list \<times> nat \<times> nat) option"
where
  "QsortCellsSweep pool a base i j =
     do { a \<leftarrow> swap_if_less pool a j i;
          a \<leftarrow> swap_if_less pool a base i;
          a \<leftarrow> swap_if_less pool a j base;
          QsortCellsSweep_while pool base a i j }"

text \<open>
  The inner loop of \<^verbatim>\<open>QsortCellsFor\<close>:
  \<^verbatim>\<open>for (; j[1]->x < j->x; j--) { SwapCells(j + 1, j); if (j == base) break; }\<close>
\<close>

fun QsortCellsFor_inner ::
  "Cell list list \<Rightarrow> nat \<Rightarrow> cellptr option list \<Rightarrow> nat \<Rightarrow> cellptr option list option"
where
  "QsortCellsFor_inner pool base a j =
     do { x1 \<leftarrow> x_at pool a (Suc j);
          x0 \<leftarrow> x_at pool a j;
          if sint x1 < sint x0 then
            do { a' \<leftarrow> SwapCells a (Suc j) j;
                 if j = base then Some a'
                 else (case j of 0 \<Rightarrow> None
                       | Suc j' \<Rightarrow> QsortCellsFor_inner pool base a' j') }
          else Some a }"

declare QsortCellsFor_inner.simps [simp del]

text \<open>
  \<^verbatim>\<open>QsortCellsFor\<close>, the insertion sort of \<open>a[base..limit)\<close>: the outer loop runs while
  \<open>i < limit\<close>, and \<open>j\<close> is set to \<open>i\<close> before \<open>i\<close> is incremented.
\<close>

function QsortCellsFor ::
  "Cell list list \<Rightarrow> nat \<Rightarrow> nat \<Rightarrow> cellptr option list \<Rightarrow> nat \<Rightarrow> nat \<Rightarrow>
   cellptr option list option"
where
  "QsortCellsFor pool base limit a i j =
     (if i < limit then
        do { a' \<leftarrow> QsortCellsFor_inner pool base a j;
             QsortCellsFor pool base limit a' (Suc i) i }
      else Some a)"
  by pat_completeness auto
termination
  by (relation "measure (\<lambda>(pool, base, limit, a, i, j). limit - i)") auto

declare QsortCellsFor.simps [simp del]

definition QSORT_THRESHOLD :: nat where
  "QSORT_THRESHOLD = 9"

text \<open>The stack of \<^verbatim>\<open>QsortCells\<close> has 80 entries, two for each pushed sub-array.\<close>

definition stackSize :: nat where
  "stackSize = 80"

text \<open>
  The \<^verbatim>\<open>while (1)\<close> loop of \<^verbatim>\<open>QsortCells\<close>. The stack is the list of the pushed
  \<open>(base, limit)\<close> pairs, the top first.
\<close>

partial_function (option) QsortCells_while ::
  "Cell list list \<Rightarrow> cellptr option list \<Rightarrow> (nat \<times> nat) list \<Rightarrow> nat \<Rightarrow> nat \<Rightarrow>
   cellptr option list option"
where
  "QsortCells_while pool a stack base limit =
     (if limit - base > QSORT_THRESHOLD then
        do { a \<leftarrow> SwapCells a base (base + (limit - base) div 2);
             (a, i, j) \<leftarrow> QsortCellsSweep pool a base (base + 1) (limit - 1);
             a \<leftarrow> SwapCells a base j;
             if 2 * length stack + 2 > stackSize then None
             else if int j - int base > int limit - int i
             then QsortCells_while pool a ((base, j) # stack) i limit
             else QsortCells_while pool a ((i, limit) # stack) base j }
      else
        do { a \<leftarrow> QsortCellsFor pool base limit a (base + 1) base;
             (case stack of
                [] \<Rightarrow> Some a
              | (b, l) # stack' \<Rightarrow> QsortCells_while pool a stack' b l) })"

declare QsortCells_while.simps [code]

definition QsortCells ::
  "Cell list list \<Rightarrow> cellptr option list \<Rightarrow> nat \<Rightarrow> nat \<Rightarrow> cellptr option list option"
where
  "QsortCells pool a start0 n = QsortCells_while pool a [] start0 (start0 + n)"

text \<open>
  The two passes of \<^verbatim>\<open>SortAllCells\<close> over the pool visit the first \<open>numCells\<close> slots block
  by block: slot \<open>i mod CELL_BLOCK_SIZE\<close> of block \<open>i div CELL_BLOCK_SIZE\<close> for
  \<open>i = 0, 1, \<dots>\<close> in this order.
\<close>

definition cell_ptrs :: "nat \<Rightarrow> cellptr list" where
  "cell_ptrs n = map (\<lambda>i. (i div CELL_BLOCK_SIZE, i mod CELL_BLOCK_SIZE)) [0..<n]"

text \<open>The Y-histogram: \<^verbatim>\<open>sortedY_[cellPtr->y - minY_].start++\<close> for every cell.\<close>

fun histogram ::
  "Cell list list \<Rightarrow> int32 \<Rightarrow> cellptr list \<Rightarrow> SortedYLevel list \<Rightarrow> SortedYLevel list option"
where
  "histogram pool mY [] sy = Some sy"
| "histogram pool mY (p # ps) sy =
     do { c \<leftarrow> cell_at pool p;
          if unat (cell_y c - mY) < length sy
          then histogram pool mY ps
                 (sy[unat (cell_y c - mY) :=
                       (sy ! unat (cell_y c - mY))
                         \<lparr>start := start (sy ! unat (cell_y c - mY)) + 1\<rparr>])
          else None }"

text \<open>
  The histogram becomes the array of starting indexes:
  \<^verbatim>\<open>v = sortedY_[i].start; sortedY_[i].start = start; start += v;\<close>
\<close>

fun start_indexes :: "SortedYLevel list \<Rightarrow> uint32 \<Rightarrow> SortedYLevel list" where
  "start_indexes [] st = []"
| "start_indexes (l # ls) st = l\<lparr>start := st\<rparr> # start_indexes ls (st + start l)"

text \<open>
  Filling the pointer array:
  \<^verbatim>\<open>sortedCells_[currY.start + currY.num] = cellPtr; ++currY.num;\<close>
\<close>

fun scatter ::
  "Cell list list \<Rightarrow> int32 \<Rightarrow> cellptr list \<Rightarrow> SortedYLevel list \<Rightarrow> cellptr option list \<Rightarrow>
   (SortedYLevel list \<times> cellptr option list) option"
where
  "scatter pool mY [] sy sc = Some (sy, sc)"
| "scatter pool mY (p # ps) sy sc =
     do { c \<leftarrow> cell_at pool p;
          if unat (cell_y c - mY) < length sy then
            (let currY = sy ! unat (cell_y c - mY)
             in if unat (start currY + num currY) < length sc
                then scatter pool mY ps
                       (sy[unat (cell_y c - mY) := currY\<lparr>num := num currY + 1\<rparr>])
                       (sc[unat (start currY + num currY) := Some p])
                else None)
          else None }"

text \<open>The last loop: \<^verbatim>\<open>QsortCells\<close> on the slice of every row that has cells.\<close>

fun sort_rows ::
  "Cell list list \<Rightarrow> SortedYLevel list \<Rightarrow> cellptr option list \<Rightarrow> cellptr option list option"
where
  "sort_rows pool [] sc = Some sc"
| "sort_rows pool (l # ls) sc =
     (if num l \<noteq> 0 then
        do { sc' \<leftarrow> QsortCells pool sc (unat (start l)) (unat (num l));
             sort_rows pool ls sc' }
      else sort_rows pool ls sc)"

text \<open>
  \<^verbatim>\<open>SortAllCells\<close>. The plain-data vector of \<^verbatim>\<open>geometry_plaindata_vector.h\<close> is not among
  the sources: \<^verbatim>\<open>Allocate(n, \<dots>)\<close> gives a vector of \<open>n\<close> entries with no defined
  content, and \<^verbatim>\<open>CleanData\<close> zeroes them.
\<close>

definition SortAllCells :: "Rasterizer \<Rightarrow> Rasterizer option" where
  "SortAllCells s =
     (if sortedFlag s then Some s
      else
        (let s = AddCurrentCell s;
             s = s\<lparr>currCell := (currCell s)\<lparr>cell_x := INT32_MAX, cell_y := INT32_MAX,
                                            cover := 0, area := 0\<rparr>\<rparr>
         in if numCells s = 0 then Some s
            else
              (let s = s\<lparr>sortedCells := replicate (unat (numCells s)) None\<rparr>;
                   s = s\<lparr>sortedY := replicate (unat (maxY s - minY s + 1))
                                     \<lparr>start = 0, num = 0\<rparr>\<rparr>
               in do { sy \<leftarrow> histogram (cells s) (minY s) (cell_ptrs (unat (numCells s)))
                               (sortedY s);
                       (sy, sc) \<leftarrow> scatter (cells s) (minY s) (cell_ptrs (unat (numCells s)))
                                    (start_indexes sy 0) (sortedCells s);
                       sc \<leftarrow> sort_rows (cells s) sy sc;
                       Some (s\<lparr>sortedCells := sc, sortedY := sy, sortedFlag := True\<rparr>) })))"

text \<open>The accessors of the scanline view.\<close>

definition GetTotalCells :: "Rasterizer \<Rightarrow> uint32" where
  "GetTotalCells s = numCells s"

definition GetSorted :: "Rasterizer \<Rightarrow> bool" where
  "GetSorted s = sortedFlag s"

definition GetMinX :: "Rasterizer \<Rightarrow> int32" where
  "GetMinX s = minX s"

definition GetMinY :: "Rasterizer \<Rightarrow> int32" where
  "GetMinY s = minY s"

definition GetMaxX :: "Rasterizer \<Rightarrow> int32" where
  "GetMaxX s = maxX s"

definition GetMaxY :: "Rasterizer \<Rightarrow> int32" where
  "GetMaxY s = maxY s"

text \<open>\<^verbatim>\<open>sortedY_[yLevel - minY_].num\<close>\<close>

definition ScanlineNumCells :: "Rasterizer \<Rightarrow> uint32 \<Rightarrow> uint32 option" where
  "ScanlineNumCells s yLevel =
     (if unat (yLevel - minY s) < length (sortedY s)
      then Some (num (sortedY s ! unat (yLevel - minY s))) else None)"

text \<open>
  \<^verbatim>\<open>sortedCells_.Data() + sortedY_[yLevel - minY_].start\<close>: the pointer array from the
  row's first entry on.
\<close>

definition ScanlineCells :: "Rasterizer \<Rightarrow> uint32 \<Rightarrow> cellptr option list option" where
  "ScanlineCells s yLevel =
     (if unat (yLevel - minY s) < length (sortedY s)
      then Some (drop (unat (start (sortedY s ! unat (yLevel - minY s)))) (sortedCells s))
      else None)"

section \<open>Notions used by the properties\<close>

text \<open>
  The pool is exhausted when the block limit is reached and the cell count stands at a
  block boundary: the next commit would need a new block.
\<close>

definition exhausted :: "Rasterizer \<Rightarrow> bool" where
  "exhausted s \<longleftrightarrow> cellBlockLimit s \<le> numBlocks s \<and> numCells s AND CELL_BLOCK_MASK = 0"

text \<open>
  \<open>reach s t\<close>: \<open>t\<close> comes from \<open>s\<close> by commits of the current cell, assignments to the
  current cell and assignments to the bounding box. Every operation of the edge
  rasterizer is such a sequence.
\<close>

inductive reach :: "Rasterizer \<Rightarrow> Rasterizer \<Rightarrow> bool" where
  reach_refl: "reach s s"
| reach_commit: "reach s t \<Longrightarrow> reach s (AddCurrentCell t)"
| reach_cell: "reach s t \<Longrightarrow> reach s (t\<lparr>currCell := c\<rparr>)"
| reach_minX: "reach s t \<Longrightarrow> reach s (t\<lparr>minX := v\<rparr>)"
| reach_maxX: "reach s t \<Longrightarrow> reach s (t\<lparr>maxX := v\<rparr>)"
| reach_minY: "reach s t \<Longrightarrow> reach s (t\<lparr>minY := v\<rparr>)"
| reach_maxY: "reach s t \<Longrightarrow> reach s (t\<lparr>maxY := v\<rparr>)"

text \<open>The storage fields of the rasterizer.\<close>

definition storage ::
  "Rasterizer \<Rightarrow> uint32 \<times> uint32 \<times> uint32 \<times> uint32 \<times> uint32 \<times> Cell list list \<times> cellptr option"
where
  "storage s = (numBlocks s, maxBlocks s, currBlock s, numCells s, cellBlockLimit s,
                cells s, currCellPtr s)"

text \<open>A rasterizer built with block limit 0, holding a non-empty current cell.\<close>

definition exhausted_example :: Rasterizer where
  "exhausted_example =
     (RasterizerCellsAntiAlias 0)\<lparr>currCell := \<lparr>cell_x = 1, cell_y = 2, cover = 3, area = 4\<rparr>\<rparr>"

text \<open>The committed cells, in the order of their commits: the first \<open>numCells\<close> slots of the pool.\<close>

definition committed :: "Rasterizer \<Rightarrow> Cell list" where
  "committed s = map (\<lambda>p. cells s ! fst p ! snd p) (cell_ptrs (unat (numCells s)))"

text \<open>
  The rasterizer after the vertical segment from \<open>(10 * 256, 0)\<close> to \<open>(10 * 256, 3 * 256)\<close>
  and \<^verbatim>\<open>SortAllCells\<close>, and the one after the horizontal segment from \<open>(0, 0)\<close> to
  \<open>(256, 0)\<close> and \<^verbatim>\<open>SortAllCells\<close>, for a block limit \<open>limit\<close>.
\<close>

definition vertical_result :: "uint32 \<Rightarrow> Rasterizer" where
  "vertical_result limit =
     \<lparr>numBlocks = 1, maxBlocks = 256, currBlock = 1, numCells = 3, cellBlockLimit = limit,
      cells = [[\<lparr>cell_x = 10, cell_y = 0, cover = 256, area = 0\<rparr>,
                \<lparr>cell_x = 10, cell_y = 1, cover = 256, area = 0\<rparr>,
                \<lparr>cell_x = 10, cell_y = 2, cover = 256, area = 0\<rparr>]],
      currCellPtr = Some (0, 3),
      sortedCells = [Some (0, 0), Some (0, 1), Some (0, 2)],
      sortedY = [\<lparr>start = 0, num = 1\<rparr>, \<lparr>start = 1, num = 1\<rparr>, \<lparr>start = 2, num = 1\<rparr>,
                 \<lparr>start = 3, num = 0\<rparr>],
      currCell = \<lparr>cell_x = INT32_MAX, cell_y = INT32_MAX, cover = 0, area = 0\<rparr>,
      styleCell = \<lparr>cell_x = INT32_MAX, cell_y = INT32_MAX, cover = 0, area = 0\<rparr>,
      minX = 10, minY = 0, maxX = 10, maxY = 3, sortedFlag = True\<rparr>"

definition horizontal_result :: "uint32 \<Rightarrow> Rasterizer" where
  "horizontal_result limit =
     \<lparr>numBlocks = 0, maxBlocks = 0, currBlock = 0, numCells = 0, cellBlockLimit = limit,
      cells = [], currCellPtr = None, sortedCells = [], sortedY = [],
      currCell = \<lparr>cell_x = INT32_MAX, cell_y = INT32_MAX, cover = 0, area = 0\<rparr>,
      styleCell = \<lparr>cell_x = INT32_MAX, cell_y = INT32_MAX, cover = 0, area = 0\<rparr>,
      minX = 0, minY = 0, maxX = 1, maxY = 0, sortedFlag = False\<rparr>"

subsection \<open>The block pool and the cover of a row\<close>

text \<open>
  \<open>pool_ok\<close>: the state of the block pool as \<^verbatim>\<open>AllocateBlock\<close> and \<^verbatim>\<open>AddCurrentCell\<close> keep
  it. There are \<open>numBlocks\<close> blocks, \<open>currBlock\<close> of them in use and at most \<open>cellBlockLimit\<close>
  of them; the \<open>numCells\<close> committed cells fill the used blocks, the last one possibly in
  part; inside a block \<^verbatim>\<open>currCellPtr_\<close> points to the next free slot; every slot below
  \<open>numCells\<close> has been written. The limit is below \<open>2 ^ 20\<close> blocks, so that \<open>numCells\<close>, an
  unsigned 32-bit counter, cannot wrap around.
\<close>

definition pool_ok :: "Rasterizer \<Rightarrow> bool" where
  "pool_ok s \<longleftrightarrow>
     length (cells s) = unat (numBlocks s) \<and>
     unat (currBlock s) \<le> unat (numBlocks s) \<and>
     unat (numBlocks s) \<le> unat (cellBlockLimit s) \<and>
     unat (cellBlockLimit s) < 2 ^ 20 \<and>
     unat (numCells s) \<le> CELL_BLOCK_SIZE * unat (currBlock s) \<and>
     CELL_BLOCK_SIZE * unat (currBlock s) < unat (numCells s) + CELL_BLOCK_SIZE \<and>
     (unat (numCells s) mod CELL_BLOCK_SIZE \<noteq> 0 \<longrightarrow>
        currCellPtr s = Some (unat (numCells s) div CELL_BLOCK_SIZE,
                              unat (numCells s) mod CELL_BLOCK_SIZE)) \<and>
     (\<forall>i < unat (numCells s). i mod CELL_BLOCK_SIZE < length (cells s ! (i div CELL_BLOCK_SIZE)))"



text \<open>
  The pixel and the sub-pixel part of a coordinate, \<^verbatim>\<open>v >> POLY_SUBPIXEL_SHIFT\<close> and
  \<^verbatim>\<open>v & POLY_SUBPIXEL_MASK\<close>.
\<close>

definition pix :: "int32 \<Rightarrow> int32" where
  "pix v = signed_drop_bit POLY_SUBPIXEL_SHIFT v"

definition sub :: "int32 \<Rightarrow> int32" where
  "sub v = v AND POLY_SUBPIXEL_MASK"



definition line_start :: "Rasterizer \<Rightarrow> int32 \<Rightarrow> int32 \<Rightarrow> int32 \<Rightarrow> int32 \<Rightarrow> Rasterizer" where
  "line_start s x1 y1 x2 y2 =
     SetCurrentCell (OutLineLegal s (pix x1) (pix y1) (pix x2) (pix y2)) (pix x1) (pix y1)"



definition twoFx :: "int32 \<Rightarrow> int32" where
  "twoFx x1 = push_bit 1 (x1 - push_bit POLY_SUBPIXEL_SHIFT (pix x1))"






subsection \<open>Sequences of segments\<close>



text \<open>
  The rasterizer after \<^verbatim>\<open>LineOperate(0, 0, 4194304, 1)\<close> on a fresh rasterizer with block
  limit 1024, for \<^verbatim>\<open>CONSTITUTION\<close> = 16384 (the segment is as long as \<^verbatim>\<open>DX_LIMIT\<close>); the
  same after \<^verbatim>\<open>SortAllCells\<close>; and the rasterizer after the closed polygon
  \<open>(0, 0)\<close>, \<open>(4194304, 1)\<close>, \<open>(0, 1)\<close>, \<open>(0, 0)\<close> and \<^verbatim>\<open>SortAllCells\<close>.
\<close>

definition long_edge_result :: Rasterizer where
  "long_edge_result =
     \<lparr>numBlocks = 1, maxBlocks = 256, currBlock = 1, numCells = 2, cellBlockLimit = 1024,
      cells = [[\<lparr>cell_x = 16383, cell_y = 0, cover = 1, area = 256\<rparr>,
                \<lparr>cell_x = 16383, cell_y = 0, cover = 1, area = 256\<rparr>]],
      currCellPtr = Some (0, 2),
      sortedCells = [], sortedY = [],
      currCell = \<lparr>cell_x = 16384, cell_y = 0, cover = 0, area = 0\<rparr>,
      styleCell = \<lparr>cell_x = INT32_MAX, cell_y = INT32_MAX, cover = 0, area = 0\<rparr>,
      minX = 0, minY = 0, maxX = 16384, maxY = 0, sortedFlag = False\<rparr>"

definition long_edge_sorted :: Rasterizer where
  "long_edge_sorted =
     long_edge_result\<lparr>sortedCells := [Some (0, 0), Some (0, 1)],
        sortedY := [\<lparr>start = 0, num = 2\<rparr>], sortedFlag := True,
        currCell := \<lparr>cell_x = INT32_MAX, cell_y = INT32_MAX, cover = 0, area = 0\<rparr>\<rparr>"




section \<open>Basic facts\<close>

lemma NotEqual_eq_0_iff: "NotEqual c ex ey = 0 \<longleftrightarrow> ex = cell_x c \<and> ey = cell_y c"
  by (simp add: NotEqual_def or_eq_0_iff)

lemma AddCurrentCell_empty:
  "area (currCell s) = 0 \<Longrightarrow> cover (currCell s) = 0 \<Longrightarrow> AddCurrentCell s = s"
  by (simp add: AddCurrentCell_def)

lemma AddCurrentCell_exhausted: "exhausted s \<Longrightarrow> AddCurrentCell s = s"
  by (simp add: AddCurrentCell_def exhausted_def)


subsection \<open>The operations as sequences of commits and assignments\<close>

lemma reach_trans: "reach t u \<Longrightarrow> reach s t \<Longrightarrow> reach s u"
  by (induction rule: reach.induct) (auto intro: reach.intros)

lemma reach_add_cover_area: "reach s (add_cover_area s dc da)"
  unfolding add_cover_area_def by (rule reach_cell) (rule reach_refl)

lemma reach_SetCurrentCell: "reach s (SetCurrentCell s ex ey)"
  unfolding SetCurrentCell_def Let_def
  by (auto intro: reach.intros)

lemma reach_OutLineLegal_x: "reach s t \<Longrightarrow> reach s (OutLineLegal_x t v)"
  by (simp add: OutLineLegal_x_def Let_def reach_minX reach_maxX)

lemma reach_OutLineLegal_y: "reach s t \<Longrightarrow> reach s (OutLineLegal_y t v)"
  by (simp add: OutLineLegal_y_def Let_def reach_minY reach_maxY)

lemma reach_OutLineLegal: "reach s (OutLineLegal s x1 y1 x2 y2)"
  by (simp add: OutLineLegal_def reach_OutLineLegal_x reach_OutLineLegal_y reach_refl)


lemma reach_RenderHorizonline_step:
  "reach s (fst st) \<Longrightarrow> reach s (fst (RenderHorizonline_step neg dx l r ey st))"
  unfolding RenderHorizonline_step_def Let_def fst_conv
  by (rule reach_trans [OF reach_SetCurrentCell]) (rule reach_trans [OF reach_add_cover_area])

lemma reach_RenderHorizonline_while:
  "reach s (fst st) \<Longrightarrow> reach s (fst (RenderHorizonline_while neg dx l r ey px2 st))"
proof (induction neg dx l r ey px2 st rule: RenderHorizonline_while.induct)
  case (1 neg dx l r ey px2 st)
  show ?case
    by (subst RenderHorizonline_while.simps)
       (simp add: "1.IH" "1.prems" reach_RenderHorizonline_step)
qed

lemma reach_RenderHorizonline: "reach s (RenderHorizonline s ey x1 m1 x2 m2)"
  unfolding RenderHorizonline_def Let_def
  by (auto intro!: reach_SetCurrentCell reach_trans [OF reach_add_cover_area]
        reach_RenderHorizonline_while reach_trans [OF reach_SetCurrentCell] reach_refl)


lemma reach_LineOperate_vertical_step:
  "reach s (fst st) \<Longrightarrow> reach s (fst (LineOperate_vertical_step neg ex delta area0 st))"
  unfolding LineOperate_vertical_step_def Let_def fst_conv
  by (rule reach_trans [OF reach_SetCurrentCell]) (rule reach_cell)

lemma reach_LineOperate_vertical_while:
  "reach s (fst st) \<Longrightarrow> reach s (fst (LineOperate_vertical_while neg ex delta area0 ey2 st))"
proof (induction neg ex delta area0 ey2 st rule: LineOperate_vertical_while.induct)
  case (1 neg ex delta area0 ey2 st)
  show ?case
    by (subst LineOperate_vertical_while.simps)
       (simp add: "1.IH" "1.prems" reach_LineOperate_vertical_step)
qed

lemma reach_LineOperate_step:
  "reach s (fst st) \<Longrightarrow> reach s (fst (LineOperate_step neg dy l r first st))"
  unfolding LineOperate_step_def Let_def fst_conv
  by (rule reach_trans [OF reach_SetCurrentCell]) (rule reach_trans [OF reach_RenderHorizonline])

lemma reach_LineOperate_while:
  "reach s (fst st) \<Longrightarrow> reach s (fst (LineOperate_while neg dy l r first ey2 st))"
proof (induction neg dy l r first ey2 st rule: LineOperate_while.induct)
  case (1 neg dy l r first ey2 st)
  show ?case
    by (subst LineOperate_while.simps)
       (simp add: "1.IH" "1.prems" reach_LineOperate_step)
qed

lemma reach_LineOperate_render: "reach s (LineOperate_render s x1 y1 x2 y2)"
  unfolding LineOperate_render_def Let_def
  by (auto intro!: reach_trans [OF reach_RenderHorizonline] reach_trans [OF reach_add_cover_area]
        reach_LineOperate_vertical_while reach_LineOperate_while
        reach_trans [OF reach_SetCurrentCell] reach_OutLineLegal)

lemma reach_LineOperate:
  assumes "LineOperate c s x1 y1 x2 y2 = Some s'"
  shows "reach s s'"
proof (rule LineOperate.raw_induct [where P = "\<lambda>c s x1 y1 x2 y2 s'. reach s s'", OF _ assms],
       goal_cases)
  case (1 f c s x1 y1 x2 y2 s')
  note IH = 1(1) and body = 1(2)
  define cx :: int32 where "cx = word_of_int (drop_bit 1 (sint x1 + sint x2))"
  define cy :: int32 where "cy = word_of_int (drop_bit 1 (sint y1 + sint y2))"
  show ?case
  proof (cases "DX_LIMIT c \<le> sint x2 - sint x1 \<or> sint x2 - sint x1 \<le> - DX_LIMIT c")
    case True
    with body [folded cx_def cy_def] obtain s1 s2 where
      h1: "f c s x1 y1 cx cy = Some s1" and
      h2: "f c s1 cx cy x2 y2 = Some s2" and
      h3: "s' = LineOperate_render s2 x1 y1 x2 y2"
      by (auto simp: bind_eq_Some_conv)
    have "reach s s1" using IH [OF h1] .
    moreover have "reach s1 s2" using IH [OF h2] .
    ultimately have "reach s s2" by (rule reach_trans [rotated])
    then show ?thesis unfolding h3
      by (rule reach_trans [OF reach_LineOperate_render])
  next
    case False
    with body have "s' = LineOperate_render s x1 y1 x2 y2" by auto
    then show ?thesis by (simp add: reach_LineOperate_render)
  qed
qed

lemma exhausted_storage: "storage t = storage s \<Longrightarrow> exhausted t = exhausted s"
  by (simp add: storage_def exhausted_def)

lemma reach_exhausted_storage: "reach s t \<Longrightarrow> exhausted s \<Longrightarrow> storage t = storage s"
proof (induction rule: reach.induct)
  case (reach_commit s t)
  then have "exhausted t" using exhausted_storage by blast
  with reach_commit show ?case by (simp add: AddCurrentCell_exhausted)
qed (simp_all add: storage_def)

lemma reach_exhausted: "reach s t \<Longrightarrow> exhausted s \<Longrightarrow> exhausted t"
  using reach_exhausted_storage exhausted_storage by blast

lemma reach_cellBlockLimit: "reach s t \<Longrightarrow> cellBlockLimit t = cellBlockLimit s"
  by (induction rule: reach.induct)
     (auto simp: AddCurrentCell_def store_cell_def AllocateBlock_def Let_def
           split: option.splits)


lemma sortedFlag_AddCurrentCell: "sortedFlag (AddCurrentCell s) = sortedFlag s"
  by (simp add: AddCurrentCell_def store_cell_def AllocateBlock_def Let_def
           split: option.splits)


lemma LineOperate_below_limit:
  "\<not> (DX_LIMIT c \<le> sint x2 - sint x1 \<or> sint x2 - sint x1 \<le> - DX_LIMIT c) \<Longrightarrow>
   LineOperate c s x1 y1 x2 y2 = Some (LineOperate_render s x1 y1 x2 y2)"
  by (subst LineOperate.simps) simp

subsection \<open>Two runs, evaluated\<close>

lemmas eval_defs = RasterizerCellsAntiAlias_def Initial_def sentinel_def INT32_MAX_def INT32_MIN_def
  SetCurrentCell_def AddCurrentCell_def NotEqual_def store_cell_def AllocateBlock_def put_slot_def
  CELL_BLOCK_MASK_def CELL_BLOCK_POOL_def POLY_SUBPIXEL_SHIFT_def POLY_SUBPIXEL_SCALE_def POLY_SUBPIXEL_MASK_def
  add_cover_area_def increase_of_def OutLineLegal_def OutLineLegal_x_def OutLineLegal_y_def

lemmas sort_eval_defs = SortAllCells_def AddCurrentCell_def Let_def cell_ptrs_def CELL_BLOCK_SIZE_def
  CELL_BLOCK_SHIFT_def cell_at_def INT32_MAX_def upt_rec

lemma DX_LIMIT_eq: "DX_LIMIT c = 256 * c"
  by (simp add: DX_LIMIT_def POLY_SUBPIXEL_SHIFT_def push_bit_eq_mult)

lemma replicate_numeral: "replicate (numeral k) v = v # replicate (pred_numeral k) v"
  by (simp add: numeral_eq_Suc)

lemma list_update_Cons_numeral: "(v # vs)[numeral k := w] = v # vs[pred_numeral k := w]"
  by (simp add: numeral_eq_Suc)

lemma QsortCells_single: "n \<le> 1 \<Longrightarrow> QsortCells pool a st n = Some a"
  unfolding QsortCells_def
  by (subst QsortCells_while.simps, subst QsortCellsFor.simps) (simp add: QSORT_THRESHOLD_def)

lemma vertical_render:
  "limit \<noteq> 0 \<Longrightarrow>
   LineOperate_render (RasterizerCellsAntiAlias limit) (10 * 256) 0 (10 * 256) (3 * 256) =
     (vertical_result limit)\<lparr>sortedCells := [], sortedY := [], sortedFlag := False,
        currCell := \<lparr>cell_x = 10, cell_y = 3, cover = 0, area = 0\<rparr>\<rparr>"
  by (simp add: LineOperate_render_def eval_defs LineOperate_vertical_while.simps
        LineOperate_vertical_step_def Let_def vertical_result_def)

lemma vertical_sort:
  "SortAllCells ((vertical_result limit)\<lparr>sortedCells := [], sortedY := [], sortedFlag := False,
        currCell := \<lparr>cell_x = 10, cell_y = 3, cover = 0, area = 0\<rparr>\<rparr>) =
   Some (vertical_result limit)"
  by (simp add: vertical_result_def sort_eval_defs QsortCells_single replicate_numeral
        list_update_Cons_numeral)

lemma vertical_run:
  assumes "0 < c" and "limit \<noteq> 0"
  shows "Option.bind (LineOperate c (RasterizerCellsAntiAlias limit) (10 * 256) 0 (10 * 256) (3 * 256))
           SortAllCells = Some (vertical_result limit)"
proof -
  have "LineOperate c (RasterizerCellsAntiAlias limit) (10 * 256) 0 (10 * 256) (3 * 256) =
        Some (LineOperate_render (RasterizerCellsAntiAlias limit) (10 * 256) 0 (10 * 256) (3 * 256))"
    using assms(1) by (intro LineOperate_below_limit) (simp add: DX_LIMIT_eq)
  then show ?thesis
    by (simp only: vertical_render [OF assms(2)] bind.bind_lunit vertical_sort)
qed

lemma committed_vertical_result:
  "committed (vertical_result limit) =
     [\<lparr>cell_x = 10, cell_y = 0, cover = 256, area = 0\<rparr>,
      \<lparr>cell_x = 10, cell_y = 1, cover = 256, area = 0\<rparr>,
      \<lparr>cell_x = 10, cell_y = 2, cover = 256, area = 0\<rparr>]"
  by (simp add: committed_def vertical_result_def cell_ptrs_def CELL_BLOCK_SIZE_def
        CELL_BLOCK_SHIFT_def upt_rec)

lemma horizontal_render:
  "LineOperate_render (RasterizerCellsAntiAlias limit) 0 0 256 0 =
     (horizontal_result limit)\<lparr>currCell := \<lparr>cell_x = 1, cell_y = 0, cover = 0, area = 0\<rparr>\<rparr>"
  by (simp add: LineOperate_render_def RenderHorizonline_def eval_defs Let_def
        horizontal_result_def)

lemma horizontal_sort:
  "SortAllCells ((horizontal_result limit)\<lparr>currCell := \<lparr>cell_x = 1, cell_y = 0, cover = 0, area = 0\<rparr>\<rparr>) =
   Some (horizontal_result limit)"
  by (simp add: horizontal_result_def SortAllCells_def AddCurrentCell_def Let_def)

lemma horizontal_run:
  assumes "1 < c"
  shows "Option.bind (LineOperate c (RasterizerCellsAntiAlias limit) 0 0 256 0) SortAllCells =
         Some (horizontal_result limit)"
proof -
  have "LineOperate c (RasterizerCellsAntiAlias limit) 0 0 256 0 =
        Some (LineOperate_render (RasterizerCellsAntiAlias limit) 0 0 256 0)"
    using assms by (intro LineOperate_below_limit) (simp add: DX_LIMIT_eq)
  then show ?thesis
    by (simp only: horizontal_render bind.bind_lunit horizontal_sort)
qed

subsection \<open>The block pool\<close>


lemma CELL_BLOCK_SIZE_eq: "CELL_BLOCK_SIZE = 4096"
  by (simp add: CELL_BLOCK_SIZE_def CELL_BLOCK_SHIFT_def)


lemma pool_ok_Reset: "pool_ok s \<Longrightarrow> pool_ok (Reset s)"
  by (simp add: pool_ok_def Reset_def CELL_BLOCK_SIZE_eq)








text \<open>Splitting a slot number into block and offset.\<close>

lemma split_index:
  fixes n :: nat
  shows "n = 4096 * (n div 4096) + n mod 4096" and "n mod 4096 < 4096"
  by simp_all









lemma pool_ok_currCell [simp]: "pool_ok (s\<lparr>currCell := c\<rparr>) = pool_ok s"
  by (simp add: pool_ok_def)

lemma pool_ok_box [simp]:
  "pool_ok (s\<lparr>minX := v\<rparr>) = pool_ok s" "pool_ok (s\<lparr>maxX := v\<rparr>) = pool_ok s"
  "pool_ok (s\<lparr>minY := v\<rparr>) = pool_ok s" "pool_ok (s\<lparr>maxY := v\<rparr>) = pool_ok s"
  by (simp_all add: pool_ok_def)



text \<open>row cover\<close>

lemma committed_currCell [simp]: "committed (s\<lparr>currCell := c\<rparr>) = committed s"
  by (simp add: committed_def)








lemma RenderHorizonline_flat:
  "RenderHorizonline s ey x1 m1 x2 m1 =
   SetCurrentCell s (signed_drop_bit POLY_SUBPIXEL_SHIFT x2) ey"
  by (simp add: RenderHorizonline_def Let_def)






lemma unat_pred: "(w::32 word) \<noteq> 0 \<Longrightarrow> unat (w - 1) = unat w - 1"
  by (simp add: unat_minus_one)




lemma increase_of_neq_0 [simp]: "increase_of neg \<noteq> 0"
  by (simp add: increase_of_def)








lemma LineOperate_render_same_row:
  assumes "pix y1 = pix y2"
  shows "LineOperate_render s x1 y1 x2 y2 =
         RenderHorizonline (line_start s x1 y1 x2 y2) (pix y1) x1 (sub y1) x2 (sub y2)"
  using assms unfolding LineOperate_render_def Let_def line_start_def pix_def sub_def
  by (simp only: if_True refl)



lemma OutLineLegal_frame:
  "storage (OutLineLegal s a b c d) = storage s"
  "currCell (OutLineLegal s a b c d) = currCell s"
  by (simp_all add: OutLineLegal_def OutLineLegal_x_def OutLineLegal_y_def Let_def storage_def)





lemma reach_line_start: "reach s (line_start s x1 y1 x2 y2)"
  unfolding line_start_def
  by (rule reach_trans [OF reach_SetCurrentCell]) (rule reach_OutLineLegal)

lemma not_exhausted_add_cover_area [simp]:
  "exhausted (add_cover_area s dc da) = exhausted s"
  by (simp add: exhausted_def add_cover_area_def)

lemma pool_ok_add_cover_area [simp]: "pool_ok (add_cover_area s dc da) = pool_ok s"
  by (simp add: add_cover_area_def)


lemma uint_of_int_32: "uint (word_of_int k :: 32 word) = k mod 2 ^ 32"
  by (simp add: uint_word_of_int)

lemma uint_diff_sint: "uint ((x::32 word) - y) = (sint x - sint y) mod 2 ^ 32"
proof -
  have "(word_of_int (sint x - sint y) :: 32 word) = x - y" by simp
  then show ?thesis using uint_of_int_32 [of "sint x - sint y"] by (simp only:)
qed













subsection \<open>Runs with a segment at the bisection limit, and a triangle\<close>

lemma sint_of_int_32:
  "- (2 ^ 31) \<le> k \<Longrightarrow> k < 2 ^ 31 \<Longrightarrow> sint (word_of_int k :: 32 word) = k"
  by (simp add: Word.sint_sbintrunc' signed_take_bit_int_eq_self)

lemma SetCurrentCell_empty:
  assumes "area (currCell s) = 0" and "cover (currCell s) = 0"
  shows "SetCurrentCell s ex ey =
         s\<lparr>currCell := \<lparr>cell_x = ex, cell_y = ey, cover = 0, area = 0\<rparr>\<rparr>"
proof (cases "NotEqual (currCell s) ex ey = 0")
  case True
  then have "currCell s = \<lparr>cell_x = ex, cell_y = ey, cover = 0, area = 0\<rparr>"
    using assms by (simp add: NotEqual_eq_0_iff)
  then show ?thesis using True by (simp add: SetCurrentCell_def)
next
  case False
  then show ?thesis using assms
    by (simp add: SetCurrentCell_def Let_def AddCurrentCell_empty)
qed

lemma add_cover_area_zero: "add_cover_area s 0 0 = s"
  by (simp add: add_cover_area_def)

lemma hline_skip_step:
  assumes cur: "currCell s = \<lparr>cell_x = px1, cell_y = ey, cover = 0, area = 0\<rparr>"
    and M: "- (2 ^ 31) \<le> M + R" "M + R < 0"
  shows "RenderHorizonline_step False dx 0 (word_of_int R) ey (s, px1, word_of_int M, m) =
         (s\<lparr>currCell := \<lparr>cell_x = px1 + 1, cell_y = ey, cover = 0, area = 0\<rparr>\<rparr>,
          px1 + 1, word_of_int (M + R), m)"
proof -
  have w: "(word_of_int M + word_of_int R :: 32 word) = word_of_int (M + R)" by simp
  have "sint (word_of_int (M + R) :: 32 word) = M + R"
    using M by (intro sint_of_int_32) simp_all
  then have neg: "\<not> 0 \<le> sint (word_of_int (M + R) :: 32 word)"
    using M by simp
  show ?thesis
    unfolding RenderHorizonline_step_def Let_def fst_conv snd_conv w
    using neg cur
    by (simp add: add_cover_area_zero SetCurrentCell_empty increase_of_def)
qed

lemma hline_skip:
  assumes "currCell s = \<lparr>cell_x = px1, cell_y = ey, cover = 0, area = 0\<rparr>"
    and "k \<le> unat (px2 - px1)"
    and "- (2 ^ 31) \<le> M" and "M + int k * R < 0" and "0 \<le> R"
  shows "RenderHorizonline_while False dx 0 (word_of_int R) ey px2 (s, px1, word_of_int M, m) =
         RenderHorizonline_while False dx 0 (word_of_int R) ey px2
           (s\<lparr>currCell := \<lparr>cell_x = px1 + of_nat k, cell_y = ey, cover = 0, area = 0\<rparr>\<rparr>,
            px1 + of_nat k, word_of_int (M + int k * R), m)"
  using assms
proof (induction k arbitrary: s px1 M)
  case 0
  have "s\<lparr>currCell := \<lparr>cell_x = px1, cell_y = ey, cover = 0, area = 0\<rparr>\<rparr> = s"
    using 0(1) by (cases s) simp
  then show ?case by simp
next
  case (Suc k)
  have ne: "px1 \<noteq> px2" using Suc.prems(2) by auto
  have R: "M + R \<le> M + int (Suc k) * R"
    using Suc.prems(5) by (simp add: algebra_simps mult_nonneg_nonneg)
  have m1: "- (2 ^ 31) \<le> M + R" using Suc.prems(3,5) by simp
  have m2: "M + R < 0" using R Suc.prems(4) by simp
  let ?s' = "s\<lparr>currCell := \<lparr>cell_x = px1 + 1, cell_y = ey, cover = 0, area = 0\<rparr>\<rparr>"
  have step: "RenderHorizonline_while False dx 0 (word_of_int R) ey px2
                (s, px1, word_of_int M, m) =
              RenderHorizonline_while False dx 0 (word_of_int R) ey px2
                (?s', px1 + 1, word_of_int (M + R), m)"
    using ne
    by (subst RenderHorizonline_while.simps)
       (simp add: hline_skip_step [OF Suc.prems(1) m1 m2])
  have d: "px2 - px1 \<noteq> 0" using ne by simp
  have k': "k \<le> unat (px2 - (px1 + 1))"
  proof -
    have e: "px2 - (px1 + 1) = (px2 - px1) - 1" by (simp add: algebra_simps)
    show ?thesis unfolding e using Suc.prems(2) unat_pred [OF d] by simp
  qed
  have m3: "M + R + int k * R < 0" using Suc.prems(4) by (simp add: algebra_simps)
  have "RenderHorizonline_while False dx 0 (word_of_int R) ey px2
          (?s', px1 + 1, word_of_int (M + R), m) =
        RenderHorizonline_while False dx 0 (word_of_int R) ey px2
          (?s'\<lparr>currCell := \<lparr>cell_x = px1 + 1 + of_nat k, cell_y = ey, cover = 0, area = 0\<rparr>\<rparr>,
           px1 + 1 + of_nat k, word_of_int (M + R + int k * R), m)"
    by (rule Suc.IH) (use k' m1 m3 Suc.prems(5) in simp_all)
  then show ?case unfolding step by (simp add: algebra_simps)
qed

lemma LineOperate_bisect_once:
  assumes "DX_LIMIT c \<le> sint x2 - sint x1 \<or> sint x2 - sint x1 \<le> - DX_LIMIT c"
    and "cx = word_of_int (drop_bit 1 (sint x1 + sint x2))"
    and "cy = word_of_int (drop_bit 1 (sint y1 + sint y2))"
    and "\<not> (DX_LIMIT c \<le> sint cx - sint x1 \<or> sint cx - sint x1 \<le> - DX_LIMIT c)"
    and "\<not> (DX_LIMIT c \<le> sint x2 - sint cx \<or> sint x2 - sint cx \<le> - DX_LIMIT c)"
  shows "LineOperate c s x1 y1 x2 y2 =
         Some (LineOperate_render
                 (LineOperate_render (LineOperate_render s x1 y1 cx cy) cx cy x2 y2)
                 x1 y1 x2 y2)"
proof -
  have a: "LineOperate c s x1 y1 cx cy = Some (LineOperate_render s x1 y1 cx cy)"
    by (rule LineOperate_below_limit [OF assms(4)])
  have b: "\<And>t. LineOperate c t cx cy x2 y2 = Some (LineOperate_render t cx cy x2 y2)"
    by (rule LineOperate_below_limit [OF assms(5)])
  show ?thesis
    by (subst LineOperate.simps)
       (simp only: assms(2,3) [symmetric] a b assms(1) if_True bind.bind_lunit)
qed

lemma render_flat:
  assumes "area (currCell s) = 0" and "cover (currCell s) = 0"
  shows "LineOperate_render s x1 y x2 y =
         (OutLineLegal s (pix x1) (pix y) (pix x2) (pix y))
           \<lparr>currCell := \<lparr>cell_x = pix x2, cell_y = pix y, cover = 0, area = 0\<rparr>\<rparr>"
  by (simp add: LineOperate_render_same_row line_start_def RenderHorizonline_flat
        SetCurrentCell_empty OutLineLegal_frame assms pix_def)

lemma hline_long_full:
  assumes "currCell s = \<lparr>cell_x = 0, cell_y = 0, cover = 0, area = 0\<rparr>"
  shows "RenderHorizonline s 0 0 0 4194304 1 =
         SetCurrentCell (s\<lparr>currCell := \<lparr>cell_x = 16383, cell_y = 0, cover = 1, area = 256\<rparr>\<rparr>)
           16384 0"
proof -
  let ?s1 = "s\<lparr>currCell := \<lparr>cell_x = 1, cell_y = 0, cover = 0, area = 0\<rparr>\<rparr>"
  let ?s2 = "s\<lparr>currCell := \<lparr>cell_x = 16383, cell_y = 0, cover = 0, area = 0\<rparr>\<rparr>"
  have skip: "RenderHorizonline_while False 4194304 0 256 0 16384 (?s1, 1, - 4194048, 0) =
              RenderHorizonline_while False 4194304 0 256 0 16384 (?s2, 16383, - 256, 0)"
    using hline_skip [of ?s1 1 0 16382 16384 "- 4194048" 256 4194304 0] by simp
  have last: "RenderHorizonline_while False 4194304 0 256 0 16384 (?s2, 16383, - 256, 0) =
              (SetCurrentCell (s\<lparr>currCell := \<lparr>cell_x = 16383, cell_y = 0, cover = 1, area = 256\<rparr>\<rparr>)
                 16384 0, 16384, - 4194304, 1)"
    by (subst RenderHorizonline_while.simps, subst RenderHorizonline_while.simps)
       (simp add: RenderHorizonline_step_def Let_def add_cover_area_def increase_of_def
          POLY_SUBPIXEL_SCALE_def)
  show ?thesis
    by (simp add: RenderHorizonline_def Let_def POLY_SUBPIXEL_SHIFT_def POLY_SUBPIXEL_SCALE_def
          POLY_SUBPIXEL_MASK_def add_cover_area_zero SetCurrentCell_empty assms increase_of_def
          signed_divide_int_def signed_modulo_int_def skip last)
qed

lemma hline_long_half:
  assumes "currCell s = \<lparr>cell_x = 8192, cell_y = 0, cover = 0, area = 0\<rparr>"
  shows "RenderHorizonline s 0 2097152 0 4194304 1 =
         SetCurrentCell (s\<lparr>currCell := \<lparr>cell_x = 16383, cell_y = 0, cover = 1, area = 256\<rparr>\<rparr>)
           16384 0"
proof -
  let ?s1 = "s\<lparr>currCell := \<lparr>cell_x = 8193, cell_y = 0, cover = 0, area = 0\<rparr>\<rparr>"
  let ?s2 = "s\<lparr>currCell := \<lparr>cell_x = 16383, cell_y = 0, cover = 0, area = 0\<rparr>\<rparr>"
  have skip: "RenderHorizonline_while False 2097152 0 256 0 16384 (?s1, 8193, - 2096896, 0) =
              RenderHorizonline_while False 2097152 0 256 0 16384 (?s2, 16383, - 256, 0)"
    using hline_skip [of ?s1 8193 0 8190 16384 "- 2096896" 256 2097152 0] by simp
  have last: "RenderHorizonline_while False 2097152 0 256 0 16384 (?s2, 16383, - 256, 0) =
              (SetCurrentCell (s\<lparr>currCell := \<lparr>cell_x = 16383, cell_y = 0, cover = 1, area = 256\<rparr>\<rparr>)
                 16384 0, 16384, - 2097152, 1)"
    by (subst RenderHorizonline_while.simps, subst RenderHorizonline_while.simps)
       (simp add: RenderHorizonline_step_def Let_def add_cover_area_def increase_of_def
          POLY_SUBPIXEL_SCALE_def)
  show ?thesis
    by (simp add: RenderHorizonline_def Let_def POLY_SUBPIXEL_SHIFT_def POLY_SUBPIXEL_SCALE_def
          POLY_SUBPIXEL_MASK_def add_cover_area_zero SetCurrentCell_empty assms increase_of_def
          signed_divide_int_def signed_modulo_int_def skip last)
qed

lemma render_long_full:
  assumes "area (currCell s) = 0" and "cover (currCell s) = 0"
  shows "LineOperate_render s 0 0 4194304 1 =
         SetCurrentCell ((OutLineLegal s 0 0 16384 0)
            \<lparr>currCell := \<lparr>cell_x = 16383, cell_y = 0, cover = 1, area = 256\<rparr>\<rparr>) 16384 0"
proof -
  have p: "pix 0 = 0" "pix 1 = 0" "pix 4194304 = 16384" "sub 0 = 0" "sub 1 = 1"
    by (simp_all add: pix_def sub_def POLY_SUBPIXEL_SHIFT_def POLY_SUBPIXEL_MASK_def)
  have "LineOperate_render s 0 0 4194304 1 =
        RenderHorizonline (line_start s 0 0 4194304 1) 0 0 0 4194304 1"
    using LineOperate_render_same_row [of 0 1 s 0 4194304] by (simp add: p)
  also have "line_start s 0 0 4194304 1 =
             (OutLineLegal s 0 0 16384 0)\<lparr>currCell := \<lparr>cell_x = 0, cell_y = 0, cover = 0, area = 0\<rparr>\<rparr>"
    by (simp add: line_start_def p SetCurrentCell_empty OutLineLegal_frame assms)
  finally show ?thesis by (simp add: hline_long_full)
qed

lemma render_long_half:
  assumes "area (currCell s) = 0" and "cover (currCell s) = 0"
  shows "LineOperate_render s 2097152 0 4194304 1 =
         SetCurrentCell ((OutLineLegal s 8192 0 16384 0)
            \<lparr>currCell := \<lparr>cell_x = 16383, cell_y = 0, cover = 1, area = 256\<rparr>\<rparr>) 16384 0"
proof -
  have p: "pix 0 = 0" "pix 1 = 0" "pix 4194304 = 16384" "sub 0 = 0" "sub 1 = 1"
     "pix 2097152 = 8192"
    by (simp_all add: pix_def sub_def POLY_SUBPIXEL_SHIFT_def POLY_SUBPIXEL_MASK_def)
  have "LineOperate_render s 2097152 0 4194304 1 =
        RenderHorizonline (line_start s 2097152 0 4194304 1) 0 2097152 0 4194304 1"
    using LineOperate_render_same_row [of 0 1 s 2097152 4194304] by (simp add: p)
  also have "line_start s 2097152 0 4194304 1 =
             (OutLineLegal s 8192 0 16384 0)\<lparr>currCell := \<lparr>cell_x = 8192, cell_y = 0, cover = 0, area = 0\<rparr>\<rparr>"
    by (simp add: line_start_def p SetCurrentCell_empty OutLineLegal_frame assms)
  finally show ?thesis by (simp add: hline_long_half)
qed

lemma long_edge_half1:
  "LineOperate_render (RasterizerCellsAntiAlias 1024) 0 0 2097152 0 =
   (RasterizerCellsAntiAlias 1024)\<lparr>minX := 0, minY := 0, maxX := 8192, maxY := 0,
      currCell := \<lparr>cell_x = 8192, cell_y = 0, cover = 0, area = 0\<rparr>\<rparr>"
  by (simp add: render_flat pix_def eval_defs)

lemma long_edge_half2:
  "LineOperate_render ((RasterizerCellsAntiAlias 1024)\<lparr>minX := 0, minY := 0, maxX := 8192, maxY := 0,
      currCell := \<lparr>cell_x = 8192, cell_y = 0, cover = 0, area = 0\<rparr>\<rparr>) 2097152 0 4194304 1 =
   long_edge_result\<lparr>numCells := 1, currCellPtr := Some (0, 1),
      cells := [[\<lparr>cell_x = 16383, cell_y = 0, cover = 1, area = 256\<rparr>]]\<rparr>"
  by (simp add: render_long_half eval_defs long_edge_result_def)

lemma long_edge_full:
  "LineOperate_render (long_edge_result\<lparr>numCells := 1, currCellPtr := Some (0, 1),
      cells := [[\<lparr>cell_x = 16383, cell_y = 0, cover = 1, area = 256\<rparr>]]\<rparr>) 0 0 4194304 1 =
   long_edge_result"
  by (simp add: render_long_full eval_defs long_edge_result_def)

lemma long_edge_run:
  "LineOperate 16384 (RasterizerCellsAntiAlias 1024) 0 0 4194304 1 = Some long_edge_result"
proof -
  have "LineOperate 16384 (RasterizerCellsAntiAlias 1024) 0 0 4194304 1 =
        Some (LineOperate_render
                (LineOperate_render
                   (LineOperate_render (RasterizerCellsAntiAlias 1024) 0 0 2097152 0)
                   2097152 0 4194304 1)
                0 0 4194304 1)"
    by (rule LineOperate_bisect_once) (simp_all add: DX_LIMIT_eq)
  then show ?thesis
    by (simp only: long_edge_half1 long_edge_half2 long_edge_full)
qed

lemma long_edge_reference:
  "LineOperate_render (RasterizerCellsAntiAlias 1024) 0 0 4194304 1 =
   long_edge_result\<lparr>numCells := 1, currCellPtr := Some (0, 1),
      cells := [[\<lparr>cell_x = 16383, cell_y = 0, cover = 1, area = 256\<rparr>]]\<rparr>"
  by (simp add: render_long_full eval_defs long_edge_result_def)

lemma QsortCellsFor_inner_eval:
  "QsortCellsFor_inner pool base a j =
     (case x_at pool a (Suc j) of None \<Rightarrow> None
      | Some x1 \<Rightarrow>
          (case x_at pool a j of None \<Rightarrow> None
           | Some x0 \<Rightarrow>
               if sint x1 < sint x0 then
                 (case SwapCells a (Suc j) j of None \<Rightarrow> None
                  | Some a' \<Rightarrow>
                      if j = base then Some a'
                      else (case j of 0 \<Rightarrow> None
                            | Suc j' \<Rightarrow> QsortCellsFor_inner pool base a' j'))
               else Some a))"
  by (subst QsortCellsFor_inner.simps) (simp split: option.splits)

lemma QsortCellsFor_eval:
  "QsortCellsFor pool base limit a i j =
     (if i < limit then
        (case QsortCellsFor_inner pool base a j of None \<Rightarrow> None
         | Some a' \<Rightarrow> QsortCellsFor pool base limit a' (Suc i) i)
      else Some a)"
  by (subst QsortCellsFor.simps) (simp split: option.splits)

lemma QsortCells_small:
  "n \<le> 9 \<Longrightarrow> QsortCells pool a st n = QsortCellsFor pool st (st + n) a (st + 1) st"
  unfolding QsortCells_def
  by (subst QsortCells_while.simps) (simp add: QSORT_THRESHOLD_def)

lemmas qsort_eval_defs = QsortCells_small QsortCellsFor_eval QsortCellsFor_inner_eval
  x_at_def SwapCells_def

lemma long_edge_sort: "SortAllCells long_edge_result = Some long_edge_sorted"
  by (simp add: long_edge_result_def long_edge_sorted_def sort_eval_defs qsort_eval_defs
        replicate_numeral list_update_Cons_numeral)




















section \<open>The claims\<close>

text \<open>
  C4. When the number of allocated blocks has reached the block limit and the cell
  count stands at a block boundary, \<^verbatim>\<open>AddCurrentCell\<close> returns the rasterizer as it was:
  nothing is raised, the cell count, the pool and every other field are unchanged.
  The same holds for the commit inside \<^verbatim>\<open>SetCurrentCell\<close>, and a whole \<^verbatim>\<open>LineOperate\<close>
  leaves the storage fields and \<^verbatim>\<open>GetTotalCells()\<close> as they were, with the next commit
  dropped again.
\<close>

theorem block_limit_drops_commit:
  assumes "cellBlockLimit s \<le> numBlocks s" and "numCells s AND CELL_BLOCK_MASK = 0"
  shows "AddCurrentCell s = s \<and>
         storage (SetCurrentCell s ex ey) = storage s \<and>
         (\<forall>s'. LineOperate c s x1 y1 x2 y2 = Some s' \<longrightarrow>
               GetTotalCells s' = GetTotalCells s \<and> storage s' = storage s \<and>
               AddCurrentCell s' = s')"
proof -
  from assms have ex: "exhausted s" by (simp add: exhausted_def)
  have a: "AddCurrentCell s = s" using ex by (rule AddCurrentCell_exhausted)
  have b: "storage (SetCurrentCell s ex ey) = storage s"
    using reach_SetCurrentCell ex by (rule reach_exhausted_storage)
  have c: "GetTotalCells s' = GetTotalCells s \<and> storage s' = storage s \<and> AddCurrentCell s' = s'"
    if "LineOperate c s x1 y1 x2 y2 = Some s'" for s'
  proof -
    from that have r: "reach s s'" by (rule reach_LineOperate)
    then have st: "storage s' = storage s" using ex by (rule reach_exhausted_storage)
    have "exhausted s'" using r ex by (rule reach_exhausted)
    then have "AddCurrentCell s' = s'" by (rule AddCurrentCell_exhausted)
    with st show ?thesis by (simp add: storage_def GetTotalCells_def)
  qed
  from a b c show ?thesis by blast
qed


theorem block_limit_drops_commit_witness:
  "cellBlockLimit exhausted_example \<le> numBlocks exhausted_example \<and>
   numCells exhausted_example AND CELL_BLOCK_MASK = 0 \<and>
   (area (currCell exhausted_example) OR cover (currCell exhausted_example)) \<noteq> 0 \<and>
   AddCurrentCell exhausted_example = exhausted_example \<and>
   storage (SetCurrentCell exhausted_example 5 6) = storage exhausted_example \<and>
   (\<exists>s'. LineOperate 16384 exhausted_example 0 0 256 256 = Some s' \<and>
         GetTotalCells s' = GetTotalCells exhausted_example \<and>
         storage s' = storage exhausted_example \<and> AddCurrentCell s' = s')"
proof -
  have h1: "cellBlockLimit exhausted_example \<le> numBlocks exhausted_example"
    by (simp add: exhausted_example_def RasterizerCellsAntiAlias_def)
  have h2: "numCells exhausted_example AND CELL_BLOCK_MASK = 0"
    by (simp add: exhausted_example_def RasterizerCellsAntiAlias_def)
  have h3: "(area (currCell exhausted_example) OR cover (currCell exhausted_example)) \<noteq> 0"
    by (simp add: exhausted_example_def)
  have h4: "LineOperate 16384 exhausted_example 0 0 256 256 =
            Some (LineOperate_render exhausted_example 0 0 256 256)"
    by (rule LineOperate_below_limit) (simp add: DX_LIMIT_def POLY_SUBPIXEL_SHIFT_def)
  from block_limit_drops_commit [OF h1 h2, of 5 6 16384 0 0 256 256] h1 h2 h3 h4
  show ?thesis by simp
qed

text \<open>
  C5. A commit of a current cell whose area and cover are both zero stores nothing:
  \<^verbatim>\<open>AddCurrentCell\<close> returns the rasterizer as it was, and after a \<^verbatim>\<open>SetCurrentCell\<close> the
  cell count, the pool and the other storage fields are what they were.
\<close>

theorem empty_cell_not_stored:
  assumes "area (currCell s) = 0" and "cover (currCell s) = 0"
  shows "AddCurrentCell s = s \<and>
         numCells (SetCurrentCell s ex ey) = numCells s \<and>
         cells (SetCurrentCell s ex ey) = cells s \<and>
         storage (SetCurrentCell s ex ey) = storage s"
  using assms by (simp add: SetCurrentCell_def Let_def AddCurrentCell_empty storage_def)


theorem empty_cell_not_stored_witness:
  "area (currCell (RasterizerCellsAntiAlias 1024)) = 0 \<and>
   cover (currCell (RasterizerCellsAntiAlias 1024)) = 0 \<and>
   AddCurrentCell (RasterizerCellsAntiAlias 1024) = RasterizerCellsAntiAlias 1024 \<and>
   numCells (SetCurrentCell (RasterizerCellsAntiAlias 1024) 7 9) = 0 \<and>
   cells (SetCurrentCell (RasterizerCellsAntiAlias 1024) 7 9) = []"
proof -
  have h1: "area (currCell (RasterizerCellsAntiAlias 1024)) = 0"
    by (simp add: RasterizerCellsAntiAlias_def Initial_def)
  have h2: "cover (currCell (RasterizerCellsAntiAlias 1024)) = 0"
    by (simp add: RasterizerCellsAntiAlias_def Initial_def)
  from empty_cell_not_stored [OF h1 h2, of 7 9] h1 h2
  show ?thesis by (simp add: RasterizerCellsAntiAlias_def)
qed

text \<open>
  C9. A second \<^verbatim>\<open>SortAllCells\<close> right after the first returns the rasterizer the first
  one returned: every field, so \<^verbatim>\<open>GetTotalCells()\<close>, \<^verbatim>\<open>GetSorted()\<close>, the bounding box
  and the scanline view are the same.
\<close>

theorem SortAllCells_twice:
  assumes "SortAllCells s = Some s'"
  shows "SortAllCells s' = Some s'"
proof (cases "sortedFlag s")
  case True
  with assms show ?thesis by (simp add: SortAllCells_def)
next
  case False
  define t where "t = (AddCurrentCell s)\<lparr>currCell := (currCell (AddCurrentCell s))
                         \<lparr>cell_x := INT32_MAX, cell_y := INT32_MAX, cover := 0, area := 0\<rparr>\<rparr>"
  show ?thesis
  proof (cases "numCells t = 0")
    case True
    with False assms have s': "s' = t" by (simp add: SortAllCells_def Let_def t_def)
    have flag: "\<not> sortedFlag t" using False by (simp add: t_def sortedFlag_AddCurrentCell)
    have add: "AddCurrentCell t = t" by (rule AddCurrentCell_empty) (simp_all add: t_def)
    have "t\<lparr>currCell := (currCell t)\<lparr>cell_x := INT32_MAX, cell_y := INT32_MAX,
                                         cover := 0, area := 0\<rparr>\<rparr> = t"
      by (simp add: t_def)
    with flag add True show ?thesis unfolding s' by (simp add: SortAllCells_def Let_def)
  next
    case nonempty: False
    with False assms have "sortedFlag s'"
      by (auto simp: SortAllCells_def Let_def t_def bind_eq_Some_conv)
    then show ?thesis by (simp add: SortAllCells_def)
  qed
qed


theorem SortAllCells_twice_witness:
  "SortAllCells ((vertical_result 1024)\<lparr>sortedCells := [], sortedY := [], sortedFlag := False,
        currCell := \<lparr>cell_x = 10, cell_y = 3, cover = 0, area = 0\<rparr>\<rparr>) =
     Some (vertical_result 1024) \<and>
   SortAllCells (vertical_result 1024) = Some (vertical_result 1024) \<and>
   GetSorted (vertical_result 1024) \<and> GetTotalCells (vertical_result 1024) = 3 \<and>
   ScanlineNumCells (vertical_result 1024) 1 = Some 1 \<and>
   map_option (take 1) (ScanlineCells (vertical_result 1024) 1) = Some [Some (0, 1)] \<and>
   SortAllCells (RasterizerCellsAntiAlias 1024) = Some (RasterizerCellsAntiAlias 1024)"
proof -
  have h: "SortAllCells ((vertical_result 1024)\<lparr>sortedCells := [], sortedY := [],
             sortedFlag := False,
             currCell := \<lparr>cell_x = 10, cell_y = 3, cover = 0, area = 0\<rparr>\<rparr>) =
           Some (vertical_result 1024)"
    by (rule vertical_sort)
  have e: "SortAllCells (RasterizerCellsAntiAlias 1024) = Some (RasterizerCellsAntiAlias 1024)"
    by (simp add: SortAllCells_def RasterizerCellsAntiAlias_def AddCurrentCell_def
          Initial_def sentinel_def Let_def)
  have v: "GetSorted (vertical_result 1024) \<and> GetTotalCells (vertical_result 1024) = 3 \<and>
           ScanlineNumCells (vertical_result 1024) 1 = Some 1 \<and>
           map_option (take 1) (ScanlineCells (vertical_result 1024) 1) = Some [Some (0, 1)]"
    by (simp add: vertical_result_def GetSorted_def GetTotalCells_def ScanlineNumCells_def
          ScanlineCells_def)
  from SortAllCells_twice [OF h] SortAllCells_twice [OF e] h v show ?thesis by simp
qed

text \<open>
  C10. When the sorted flag is not set and no cell is committed after the final
  \<^verbatim>\<open>AddCurrentCell\<close>, \<^verbatim>\<open>SortAllCells\<close> returns with \<^verbatim>\<open>GetSorted()\<close> still false; and
  whenever it returns, the flag is set exactly if a cell was committed.
\<close>

theorem empty_shape_not_sorted:
  assumes "\<not> sortedFlag s"
  shows "(numCells (AddCurrentCell s) = 0 \<longrightarrow>
            (\<exists>s'. SortAllCells s = Some s' \<and> \<not> GetSorted s' \<and> GetTotalCells s' = 0)) \<and>
         (\<forall>s'. SortAllCells s = Some s' \<longrightarrow>
            GetSorted s' = (numCells (AddCurrentCell s) \<noteq> 0))"
  using assms
  by (auto simp: SortAllCells_def Let_def GetSorted_def GetTotalCells_def
        sortedFlag_AddCurrentCell bind_eq_Some_conv)


theorem empty_shape_not_sorted_witness:
  "\<not> sortedFlag (RasterizerCellsAntiAlias 1024) \<and>
   numCells (AddCurrentCell (RasterizerCellsAntiAlias 1024)) = 0 \<and>
   (\<exists>s'. SortAllCells (RasterizerCellsAntiAlias 1024) = Some s' \<and> \<not> GetSorted s' \<and>
         GetTotalCells s' = 0) \<and>
   (\<exists>s s'. \<not> sortedFlag s \<and> numCells (AddCurrentCell s) = 3 \<and>
           LineOperate 16384 (RasterizerCellsAntiAlias 1024) (10 * 256) 0 (10 * 256) (3 * 256) =
             Some s \<and>
           SortAllCells s = Some s' \<and> GetSorted s' \<and> GetTotalCells s' = 3)"
proof -
  have h1: "\<not> sortedFlag (RasterizerCellsAntiAlias 1024)"
    by (simp add: RasterizerCellsAntiAlias_def)
  have h2: "numCells (AddCurrentCell (RasterizerCellsAntiAlias 1024)) = 0"
    by (simp add: RasterizerCellsAntiAlias_def AddCurrentCell_def Initial_def)
  define s where "s = (vertical_result 1024)\<lparr>sortedCells := [], sortedY := [],
     sortedFlag := False, currCell := \<lparr>cell_x = 10, cell_y = 3, cover = 0, area = 0\<rparr>\<rparr>"
  have r: "LineOperate_render (RasterizerCellsAntiAlias 1024) (10 * 256) 0 (10 * 256) (3 * 256) = s"
    unfolding s_def by (rule vertical_render) simp
  have "LineOperate 16384 (RasterizerCellsAntiAlias 1024) (10 * 256) 0 (10 * 256) (3 * 256) =
        Some (LineOperate_render (RasterizerCellsAntiAlias 1024) (10 * 256) 0 (10 * 256) (3 * 256))"
    by (rule LineOperate_below_limit) (simp add: DX_LIMIT_eq)
  then have l: "LineOperate 16384 (RasterizerCellsAntiAlias 1024) (10 * 256) 0 (10 * 256)
                  (3 * 256) = Some s"
    by (simp only: r)
  have g1: "\<not> sortedFlag s" by (simp add: s_def)
  have g2: "numCells (AddCurrentCell s) = 3"
    by (simp add: s_def vertical_result_def AddCurrentCell_def)
  have g3: "SortAllCells s = Some (vertical_result 1024)"
    unfolding s_def by (rule vertical_sort)
  from empty_shape_not_sorted [OF g1] g2 g3 have g4: "GetSorted (vertical_result 1024)"
    by simp
  have g5: "GetTotalCells (vertical_result 1024) = 3"
    by (simp add: vertical_result_def GetTotalCells_def)
  from empty_shape_not_sorted [OF h1] h1 h2 have e:
    "\<exists>s'. SortAllCells (RasterizerCellsAntiAlias 1024) = Some s' \<and> \<not> GetSorted s' \<and>
          GetTotalCells s' = 0"
    by blast
  from h1 h2 e l g1 g2 g3 g4 g5 show ?thesis by blast
qed

text \<open>
  C6. On a fresh rasterizer (any positive \<^verbatim>\<open>CONSTITUTION\<close>, any block limit other than 0) the
  vertical segment from \<open>(10 * 256, 0)\<close> to \<open>(10 * 256, 3 * 256)\<close> followed by
  \<^verbatim>\<open>SortAllCells\<close> returns with exactly three committed cells, at \<open>x = 10\<close> and
  \<open>y = 0, 1, 2\<close>, each with cover 256 and all with the same area, 0.
\<close>

theorem vertical_segment_three_cells:
  assumes "0 < c" and "limit \<noteq> 0"
  shows "\<exists>s'. Option.bind (LineOperate c (RasterizerCellsAntiAlias limit)
                          (10 * 256) 0 (10 * 256) (3 * 256)) SortAllCells = Some s' \<and>
              GetTotalCells s' = 3 \<and>
              committed s' = [\<lparr>cell_x = 10, cell_y = 0, cover = 256, area = 0\<rparr>,
                              \<lparr>cell_x = 10, cell_y = 1, cover = 256, area = 0\<rparr>,
                              \<lparr>cell_x = 10, cell_y = 2, cover = 256, area = 0\<rparr>] \<and>
              GetSorted s'"
  using vertical_run [OF assms] committed_vertical_result [of limit]
  by (simp add: GetTotalCells_def GetSorted_def vertical_result_def)

theorem vertical_segment_three_cells_witness:
  "(0::int) < 16384 \<and> (1024::uint32) \<noteq> 0 \<and>
   (\<exists>s'. Option.bind (LineOperate 16384 (RasterizerCellsAntiAlias 1024)
                          (10 * 256) 0 (10 * 256) (3 * 256)) SortAllCells = Some s' \<and>
         GetTotalCells s' = 3 \<and>
         committed s' = [\<lparr>cell_x = 10, cell_y = 0, cover = 256, area = 0\<rparr>,
                         \<lparr>cell_x = 10, cell_y = 1, cover = 256, area = 0\<rparr>,
                         \<lparr>cell_x = 10, cell_y = 2, cover = 256, area = 0\<rparr>] \<and>
         GetSorted s')"
proof -
  have h1: "(0::int) < 16384" by simp
  have h2: "(1024::uint32) \<noteq> 0" by simp
  from vertical_segment_three_cells [OF h1 h2] h1 h2 show ?thesis by blast
qed

text \<open>
  C7. The claim of one committed cell at pixel \<open>(0, 0)\<close> fails: the horizontal segment
  from \<open>(0, 0)\<close> to \<open>(256, 0)\<close> followed by \<^verbatim>\<open>SortAllCells\<close> leaves no committed cell.
\<close>

theorem horizontal_segment_counterexample:
  "map_option GetTotalCells
     (Option.bind (LineOperate 16384 (RasterizerCellsAntiAlias 1024) 0 0 256 0) SortAllCells) =
   Some 0"
  by (simp add: horizontal_run horizontal_result_def GetTotalCells_def)

text \<open>
  C7 as amended. On a fresh rasterizer (\<^verbatim>\<open>CONSTITUTION\<close> above 1, so that the segment is
  below the \<^verbatim>\<open>DX_LIMIT\<close>) the horizontal segment from \<open>(0, 0)\<close> to \<open>(256, 0)\<close> followed by
  \<^verbatim>\<open>SortAllCells\<close> returns with no committed cell: a segment whose two ends have the
  same \<open>y\<close> adds neither cover nor area, and the empty current cell is not stored. The
  sorted flag stays false and the bounding box is \<open>x\<close> from 0 to 1, \<open>y = 0\<close>.
\<close>

theorem horizontal_segment_no_cell:
  assumes "1 < c"
  shows "\<exists>s'. Option.bind (LineOperate c (RasterizerCellsAntiAlias limit) 0 0 256 0)
                SortAllCells = Some s' \<and>
              GetTotalCells s' = 0 \<and> committed s' = [] \<and> \<not> GetSorted s' \<and>
              GetMinX s' = 0 \<and> GetMaxX s' = 1 \<and> GetMinY s' = 0 \<and> GetMaxY s' = 0"
  using horizontal_run [OF assms, of limit]
  by (simp add: horizontal_result_def GetTotalCells_def GetSorted_def committed_def cell_ptrs_def
        GetMinX_def GetMaxX_def GetMinY_def GetMaxY_def)

theorem horizontal_segment_no_cell_witness:
  "(1::int) < 16384 \<and>
   (\<exists>s'. Option.bind (LineOperate 16384 (RasterizerCellsAntiAlias 1024) 0 0 256 0)
                SortAllCells = Some s' \<and>
              GetTotalCells s' = 0 \<and> committed s' = [] \<and> \<not> GetSorted s' \<and>
              GetMinX s' = 0 \<and> GetMaxX s' = 1 \<and> GetMinY s' = 0 \<and> GetMaxY s' = 0)"
proof -
  have h: "(1::int) < 16384" by simp
  from horizontal_segment_no_cell [OF h, of 1024] h show ?thesis by blast
qed

text \<open>
  C1. A segment whose \<open>dx\<close> reaches \<^verbatim>\<open>DX_LIMIT\<close> is bisected at
  \<open>((x1 + x2) >> 1, (y1 + y2) >> 1)\<close> and the two halves are rasterized by the recursive
  calls; but there is no \<^verbatim>\<open>return\<close> after them (lines 507 to 512), and the rest of the body
  then rasterizes the whole segment once more. With \<^verbatim>\<open>CONSTITUTION\<close> = 16384 and a fresh
  rasterizer, \<^verbatim>\<open>LineOperate(0, 0, 4194304, 1)\<close> is the run of the body on the half up to
  \<open>(2097152, 0)\<close>, on the half from there, and on the whole segment; it commits the cell
  \<open>(16383, 0)\<close> with cover 1 and area 256 twice, where the body alone, the non-bisected
  reference, commits it once; \<^verbatim>\<open>SortAllCells\<close> keeps both cells.
\<close>

theorem bisected_segment_counted_twice:
  "LineOperate 16384 (RasterizerCellsAntiAlias 1024) 0 0 4194304 1 =
     Some (LineOperate_render
             (LineOperate_render
                (LineOperate_render (RasterizerCellsAntiAlias 1024) 0 0 2097152 0)
                2097152 0 4194304 1)
             0 0 4194304 1) \<and>
   LineOperate 16384 (RasterizerCellsAntiAlias 1024) 0 0 4194304 1 = Some long_edge_result \<and>
   committed long_edge_result =
     [\<lparr>cell_x = 16383, cell_y = 0, cover = 1, area = 256\<rparr>,
      \<lparr>cell_x = 16383, cell_y = 0, cover = 1, area = 256\<rparr>] \<and>
   committed (LineOperate_render (RasterizerCellsAntiAlias 1024) 0 0 4194304 1) =
     [\<lparr>cell_x = 16383, cell_y = 0, cover = 1, area = 256\<rparr>] \<and>
   SortAllCells long_edge_result = Some long_edge_sorted \<and>
   GetTotalCells long_edge_sorted = 2 \<and>
   committed long_edge_sorted = committed long_edge_result"
proof -
  have b: "LineOperate 16384 (RasterizerCellsAntiAlias 1024) 0 0 4194304 1 =
        Some (LineOperate_render
                (LineOperate_render
                   (LineOperate_render (RasterizerCellsAntiAlias 1024) 0 0 2097152 0)
                   2097152 0 4194304 1)
                0 0 4194304 1)"
    by (rule LineOperate_bisect_once) (simp_all add: DX_LIMIT_eq)
  have c: "committed long_edge_result =
             [\<lparr>cell_x = 16383, cell_y = 0, cover = 1, area = 256\<rparr>,
              \<lparr>cell_x = 16383, cell_y = 0, cover = 1, area = 256\<rparr>]"
    "committed long_edge_sorted = committed long_edge_result"
    "GetTotalCells long_edge_sorted = 2"
    by (simp_all add: committed_def cell_ptrs_def long_edge_result_def long_edge_sorted_def
          GetTotalCells_def CELL_BLOCK_SIZE_def CELL_BLOCK_SHIFT_def upt_rec)
  have r: "committed (LineOperate_render (RasterizerCellsAntiAlias 1024) 0 0 4194304 1) =
             [\<lparr>cell_x = 16383, cell_y = 0, cover = 1, area = 256\<rparr>]"
    unfolding long_edge_reference
    by (simp add: committed_def cell_ptrs_def long_edge_result_def
          CELL_BLOCK_SIZE_def CELL_BLOCK_SHIFT_def upt_rec)
  from b long_edge_run c r long_edge_sort show ?thesis by simp
qed




end
